theory Spec2Isabelle
  imports Main "HOL-Library.Word" "HOL-Library.Monad_Syntax"
begin

section \<open>WTE: an installer and manager for a GOST proxy daemon\<close>

text \<open>
  A shallow embedding of the parts of the WTE command line tool that decide its
  provisioning behaviour: the self-updater's version comparison and binary swap, the
  configuration validator, the firewall and architecture probes, the public IP probe,
  the password generator, the configuration loader and the install sequence.

  Go strings are byte sequences and are modelled as \<^typ>\<open>string\<close>; Go's \<open>int\<close> is
  modelled as \<^typ>\<open>int\<close> wherever only equality and order of small values matter.
  A Go function returning \<open>(T, error)\<close> returns a sum \<open>error + T\<close> here, \<open>Inl\<close> being
  the error; a function returning only \<open>error\<close> returns an \<open>error option\<close>.
  Results of the operating system, the network and third-party libraries are inputs of
  the model.
\<close>

subsection \<open>Go string primitives\<close>

text \<open>\<open>strings.HasPrefix\<close> and \<open>strings.TrimPrefix\<close> of the Go standard library.\<close>

definition HasPrefix :: "string \<Rightarrow> string \<Rightarrow> bool" where
  "HasPrefix s pre = (length pre \<le> length s \<and> take (length pre) s = pre)"

definition TrimPrefix :: "string \<Rightarrow> string \<Rightarrow> string" where
  "TrimPrefix s pre = (if HasPrefix s pre then drop (length pre) s else s)"

text \<open>
  Go's \<open><\<close> on strings compares byte by byte, a proper prefix being smaller.
  \<open>string_less a b\<close> is \<open>a < b\<close>, so Go's \<open>a > b\<close> is \<open>string_less b a\<close>.
\<close>

fun string_less :: "string \<Rightarrow> string \<Rightarrow> bool" where
  "string_less [] [] = False"
| "string_less [] (y # ys) = True"
| "string_less (x # xs) [] = False"
| "string_less (x # xs) (y # ys) =
     (if (of_char x :: nat) < of_char y then True
      else if (of_char y :: nat) < of_char x then False
      else string_less xs ys)"

subsection \<open>Self-updater: version comparison (internal/updater/updater.go)\<close>

record Asset =
  asset_Name :: string
  BrowserDownloadURL :: string
  Size :: int
  ContentType :: string

record Release =
  TagName :: string
  Name :: string
  Body :: string
  Draft :: bool
  Prerelease :: bool
  Assets :: "Asset list"
  HTMLURL :: string

datatype update_error =
    FetchFailed
  | NoReleasesFound
  | GitHubAPIError
  | ParseFailed

text \<open>
  \<open>CheckForUpdate\<close>: the first argument is the updater's \<open>currentVersion\<close>, the second
  the outcome of \<open>GetLatestRelease\<close> (an HTTP request). The result is the release and
  \<open>hasUpdate\<close>.
\<close>

definition CheckForUpdate ::
  "string \<Rightarrow> update_error + Release \<Rightarrow> update_error + (Release \<times> bool)" where
  "CheckForUpdate currentVersion0 latest =
     (case latest of
        Inl err \<Rightarrow> Inl err
      | Inr release \<Rightarrow>
          (let latestVersion = TrimPrefix (TagName release) ''v'';
               currentVersion = TrimPrefix currentVersion0 ''v'';
               hasUpdate = (latestVersion \<noteq> currentVersion
                            \<and> string_less currentVersion latestVersion)
           in Inr (release, hasUpdate)))"

subsection \<open>Configuration model (internal/config)\<close>

record GOSTConfig =
  Version :: string
  BinaryPath :: string
  ConfigDir :: string
  ConfigFile :: string

record AuthConfig =
  auth_Enabled :: bool
  Username :: string
  auth_Password :: string

record HTTPConfig =
  http_Enabled :: bool
  http_Port :: int
  http_Auth :: AuthConfig

record HTTPSConfig =
  https_Enabled :: bool
  https_Port :: int
  CertPath :: string
  KeyPath :: string
  https_Auth :: AuthConfig

record ShadowsocksConfig =
  ss_Enabled :: bool
  ss_Port :: int
  Method :: string
  ss_Password :: string

record FirewallConfig =
  AutoConfigure :: bool

record LoggingConfig =
  Level :: string

record Config =
  GOST :: GOSTConfig
  HTTP :: HTTPConfig
  HTTPS :: HTTPSConfig
  Shadowsocks :: ShadowsocksConfig
  Firewall :: FirewallConfig
  Logging :: LoggingConfig

definition DefaultGOSTVersion :: string where "DefaultGOSTVersion = ''3.0.0-rc10''"
definition DefaultGOSTBinaryPath :: string where "DefaultGOSTBinaryPath = ''/usr/local/bin/gost''"
definition DefaultGOSTConfigDir :: string where "DefaultGOSTConfigDir = ''/etc/gost''"
definition DefaultGOSTConfigFile :: string where "DefaultGOSTConfigFile = ''/etc/gost/config.yaml''"
definition DefaultHTTPPort :: int where "DefaultHTTPPort = 8080"
definition DefaultHTTPSPort :: int where "DefaultHTTPSPort = 8443"
definition DefaultShadowsocksPort :: int where "DefaultShadowsocksPort = 9500"
definition DefaultShadowsocksMethod :: string where "DefaultShadowsocksMethod = ''aes-128-gcm''"
definition DefaultUsername :: string where "DefaultUsername = ''proxyuser''"
definition DefaultLogLevel :: string where "DefaultLogLevel = ''info''"

definition DefaultConfig :: Config where
  "DefaultConfig =
     \<lparr> GOST = \<lparr> Version = DefaultGOSTVersion, BinaryPath = DefaultGOSTBinaryPath,
                ConfigDir = DefaultGOSTConfigDir, ConfigFile = DefaultGOSTConfigFile \<rparr>,
       HTTP = \<lparr> http_Enabled = True, http_Port = DefaultHTTPPort,
                http_Auth = \<lparr> auth_Enabled = True, Username = DefaultUsername,
                              auth_Password = [] \<rparr> \<rparr>,
       HTTPS = \<lparr> https_Enabled = False, https_Port = DefaultHTTPSPort,
                 CertPath = DefaultGOSTConfigDir @ ''/cert.pem'',
                 KeyPath = DefaultGOSTConfigDir @ ''/key.pem'',
                 https_Auth = \<lparr> auth_Enabled = True, Username = DefaultUsername,
                                auth_Password = [] \<rparr> \<rparr>,
       Shadowsocks = \<lparr> ss_Enabled = True, ss_Port = DefaultShadowsocksPort,
                       Method = DefaultShadowsocksMethod, ss_Password = [] \<rparr>,
       Firewall = \<lparr> AutoConfigure = True \<rparr>,
       Logging = \<lparr> Level = DefaultLogLevel \<rparr> \<rparr>"

subsection \<open>Configuration validation (gost config generator)\<close>

text \<open>
  The errors of \<open>Validate\<close>. \<open>PortConflict p claimant existing\<close> stands for the message
  \<open>port p conflict: claimant and existing\<close>.
\<close>

datatype validate_error =
    NoServiceEnabled
  | PortConflict int string string

text \<open>
  \<open>Validate\<close> fills the Go map \<open>ports\<close> service by service; each service first looks its
  own port up.
\<close>

definition Validate :: "Config \<Rightarrow> validate_error option" where
  "Validate cfg =
     (if \<not> http_Enabled (HTTP cfg) \<and> \<not> https_Enabled (HTTPS cfg)
         \<and> \<not> ss_Enabled (Shadowsocks cfg)
      then Some NoServiceEnabled
      else
        let ports0 = (Map.empty :: int \<rightharpoonup> string) in
        case (if http_Enabled (HTTP cfg)
              then (case ports0 (http_Port (HTTP cfg)) of
                      Some existing \<Rightarrow> Inl (PortConflict (http_Port (HTTP cfg)) ''HTTP'' existing)
                    | None \<Rightarrow> Inr (ports0(http_Port (HTTP cfg) \<mapsto> ''HTTP'')))
              else Inr ports0) of
          Inl err \<Rightarrow> Some err
        | Inr ports1 \<Rightarrow>
        case (if https_Enabled (HTTPS cfg)
              then (case ports1 (https_Port (HTTPS cfg)) of
                      Some existing \<Rightarrow> Inl (PortConflict (https_Port (HTTPS cfg)) ''HTTPS'' existing)
                    | None \<Rightarrow> Inr (ports1(https_Port (HTTPS cfg) \<mapsto> ''HTTPS'')))
              else Inr ports1) of
          Inl err \<Rightarrow> Some err
        | Inr ports2 \<Rightarrow>
        case (if ss_Enabled (Shadowsocks cfg)
              then (case ports2 (ss_Port (Shadowsocks cfg)) of
                      Some existing \<Rightarrow>
                        Inl (PortConflict (ss_Port (Shadowsocks cfg)) ''Shadowsocks'' existing)
                    | None \<Rightarrow> Inr (ports2(ss_Port (Shadowsocks cfg) \<mapsto> ''Shadowsocks'')))
              else Inr ports2) of
          Inl err \<Rightarrow> Some err
        | Inr ports3 \<Rightarrow> None)"

subsection \<open>Firewall detection (internal/system/firewall.go)\<close>

datatype FirewallType = FirewallUFW | FirewallFirewalld | FirewallIPTables | FirewallNone

record FirewallManager =
  firewallType :: "FirewallType option"

text \<open>
  The host as the firewall manager sees it: \<open>lookPath name\<close> holds when
  \<open>exec.LookPath name\<close> succeeds, \<open>systemctlIsActive name\<close> when
  \<open>systemctl is-active --quiet name\<close> exits with status 0.
\<close>

record host =
  lookPath :: "string \<Rightarrow> bool"
  systemctlIsActive :: "string \<Rightarrow> bool"

definition commandExists :: "host \<Rightarrow> string \<Rightarrow> bool" where
  "commandExists h name = lookPath h name"

definition isServiceActive :: "host \<Rightarrow> string \<Rightarrow> bool" where
  "isServiceActive h name = systemctlIsActive h name"

definition detectFirewall :: "host \<Rightarrow> FirewallManager \<Rightarrow> FirewallManager" where
  "detectFirewall h fm =
     (if commandExists h ''ufw'' then fm\<lparr>firewallType := Some FirewallUFW\<rparr>
      else if commandExists h ''firewall-cmd'' \<and> isServiceActive h ''firewalld''
        then fm\<lparr>firewallType := Some FirewallFirewalld\<rparr>
      else if commandExists h ''iptables'' then fm\<lparr>firewallType := Some FirewallIPTables\<rparr>
      else fm\<lparr>firewallType := Some FirewallNone\<rparr>)"

text \<open>A fresh manager has no type yet (Go's zero value, the empty string).\<close>

definition NewFirewallManager :: "host \<Rightarrow> FirewallManager" where
  "NewFirewallManager h = detectFirewall h \<lparr>firewallType = None\<rparr>"

definition GetType :: "FirewallManager \<Rightarrow> FirewallType option" where
  "GetType fm = firewallType fm"

subsection \<open>Architecture detection (system OS probe)\<close>

record OSInfo =
  OS :: string
  os_Version :: string
  PrettyName :: string
  Arch :: string
  GOSTArch :: string
  IsSupported :: bool
  PackageManager :: string

datatype detect_error =
    UnsupportedArchitecture string
  | OSDetectionFailed

text \<open>\<open>detectArch\<close>: the second argument is the value of \<open>runtime.GOARCH\<close>.\<close>

definition detectArch :: "OSInfo \<Rightarrow> string \<Rightarrow> detect_error + OSInfo" where
  "detectArch info arch =
     (if arch = ''amd64'' then Inr (info\<lparr>Arch := ''x86_64'', GOSTArch := ''amd64''\<rparr>)
      else if arch = ''arm64'' then Inr (info\<lparr>Arch := ''aarch64'', GOSTArch := ''arm64''\<rparr>)
      else if arch = ''arm'' then Inr (info\<lparr>Arch := ''armv7l'', GOSTArch := ''armv7''\<rparr>)
      else Inl (UnsupportedArchitecture arch))"

text \<open>The record \<open>DetectOS\<close> starts from: all fields zero but \<open>Arch\<close>.\<close>

definition initialOSInfo :: "string \<Rightarrow> OSInfo" where
  "initialOSInfo goarch =
     \<lparr> OS = [], os_Version = [], PrettyName = [], Arch = goarch, GOSTArch = [],
       IsSupported = False, PackageManager = [] \<rparr>"

definition setPackageManager :: "OSInfo \<Rightarrow> OSInfo" where
  "setPackageManager info =
     (if OS info \<in> {''ubuntu'', ''debian'', ''linuxmint'', ''pop''}
        then info\<lparr>PackageManager := ''apt''\<rparr>
      else if OS info \<in> {''centos'', ''rhel'', ''rocky'', ''almalinux'', ''oracle''}
        then (if \<not> string_less (os_Version info) ''8''
              then info\<lparr>PackageManager := ''dnf''\<rparr>
              else info\<lparr>PackageManager := ''yum''\<rparr>)
      else if OS info = ''fedora'' then info\<lparr>PackageManager := ''dnf''\<rparr>
      else if OS info \<in> {''arch'', ''manjaro'', ''endeavouros''}
        then info\<lparr>PackageManager := ''pacman''\<rparr>
      else if OS info \<in> {''opensuse'', ''opensuse-leap'', ''opensuse-tumbleweed''}
        then info\<lparr>PackageManager := ''zypper''\<rparr>
      else if OS info = ''alpine'' then info\<lparr>PackageManager := ''apk''\<rparr>
      else info\<lparr>PackageManager := ''unknown''\<rparr>)"

definition checkSupported :: "OSInfo \<Rightarrow> OSInfo" where
  "checkSupported info =
     info\<lparr>IsSupported :=
       OS info \<in> {''ubuntu'', ''debian'', ''centos'', ''rhel'', ''rocky'', ''almalinux'',
                    ''fedora'', ''arch'', ''manjaro''}\<rparr>"

text \<open>
  \<open>DetectOS\<close>: \<open>goarch\<close> is \<open>runtime.GOARCH\<close>. The two readers of the release files
  (\<open>/etc/os-release\<close> and \<open>/etc/redhat-release\<close>) are inputs: each takes the record,
  and returns its error, if any, with the record as it left it.
\<close>

definition DetectOS ::
  "string \<Rightarrow> (OSInfo \<Rightarrow> detect_error option \<times> OSInfo)
     \<Rightarrow> (OSInfo \<Rightarrow> detect_error option \<times> OSInfo) \<Rightarrow> detect_error + OSInfo" where
  "DetectOS goarch detectOSRelease detectRedHatRelease =
     (case detectArch (initialOSInfo goarch) goarch of
        Inl err \<Rightarrow> Inl err
      | Inr info1 \<Rightarrow>
          (case detectOSRelease info1 of
             (None, info2) \<Rightarrow> Inr (checkSupported (setPackageManager info2))
           | (Some _, info2) \<Rightarrow>
               (case detectRedHatRelease info2 of
                  (Some _, _) \<Rightarrow> Inl OSDetectionFailed
                | (None, info3) \<Rightarrow> Inr (checkSupported (setPackageManager info3)))))"

text \<open>The architecture values on which \<open>detectArch\<close> succeeds.\<close>

definition archSupported :: "string \<Rightarrow> bool" where
  "archSupported arch =
     (case detectArch (initialOSInfo arch) arch of Inl _ \<Rightarrow> False | Inr _ \<Rightarrow> True)"

subsection \<open>Password generation (internal/security)\<close>

type_synonym byte = "8 word"

text \<open>
  \<open>base64.StdEncoding.EncodeToString\<close> of the Go standard library (RFC 4648): three
  bytes give four characters of the alphabet \<open>encodeStd\<close>; a last group of one or two
  bytes is padded with \<open>=\<close>.
\<close>

definition encodeStd :: string where
  "encodeStd = ''ABCDEFGHIJKLMNOPQRSTUVWXYZabcdefghijklmnopqrstuvwxyz0123456789+/''"

definition enc :: "nat \<Rightarrow> char" where
  "enc k = encodeStd ! k"

fun EncodeToString :: "byte list \<Rightarrow> string" where
  "EncodeToString (a # b # c # rest) =
     enc (unat a div 4)
     # enc ((unat a mod 4) * 16 + unat b div 16)
     # enc ((unat b mod 16) * 4 + unat c div 64)
     # enc (unat c mod 64)
     # EncodeToString rest"
| "EncodeToString [a, b] =
     [enc (unat a div 4), enc ((unat a mod 4) * 16 + unat b div 16),
      enc ((unat b mod 16) * 4), CHR ''='']"
| "EncodeToString [a] =
     [enc (unat a div 4), enc ((unat a mod 4) * 16), CHR ''='', CHR ''='']"
| "EncodeToString [] = []"

text \<open>\<open>strings.ReplaceAll(s, c, "")\<close> for a one-character string \<open>c\<close>.\<close>

definition ReplaceAll_char :: "string \<Rightarrow> char \<Rightarrow> string" where
  "ReplaceAll_char s c = filter (\<lambda>x. x \<noteq> c) s"



datatype pw_error = RandFailed | SliceOutOfRange








subsection \<open>Public IP detection (system network probe)\<close>

text \<open>
  \<open>strings.TrimSpace\<close> of the Go standard library removes leading and trailing white
  space as Unicode defines it. \<open>spaceEncodings\<close> lists the UTF-8 encodings of the
  white space code points: the six ASCII ones, U+0085, U+00A0, U+1680, U+2000 to U+200A,
  U+2028, U+2029, U+202F, U+205F and U+3000.
\<close>

definition spaceEncodings :: "string list" where
  "spaceEncodings =
     [[CHR 0x09], [CHR 0x0A], [CHR 0x0B], [CHR 0x0C], [CHR 0x0D], [CHR 0x20],
      [CHR 0xC2, CHR 0x85], [CHR 0xC2, CHR 0xA0], [CHR 0xE1, CHR 0x9A, CHR 0x80],
      [CHR 0xE2, CHR 0x80, CHR 0x80], [CHR 0xE2, CHR 0x80, CHR 0x81],
      [CHR 0xE2, CHR 0x80, CHR 0x82], [CHR 0xE2, CHR 0x80, CHR 0x83],
      [CHR 0xE2, CHR 0x80, CHR 0x84], [CHR 0xE2, CHR 0x80, CHR 0x85],
      [CHR 0xE2, CHR 0x80, CHR 0x86], [CHR 0xE2, CHR 0x80, CHR 0x87],
      [CHR 0xE2, CHR 0x80, CHR 0x88], [CHR 0xE2, CHR 0x80, CHR 0x89],
      [CHR 0xE2, CHR 0x80, CHR 0x8A], [CHR 0xE2, CHR 0x80, CHR 0xA8],
      [CHR 0xE2, CHR 0x80, CHR 0xA9], [CHR 0xE2, CHR 0x80, CHR 0xAF],
      [CHR 0xE2, CHR 0x81, CHR 0x9F], [CHR 0xE3, CHR 0x80, CHR 0x80]]"

text \<open>\<open>trimPrefixes ws s\<close> removes from the front of \<open>s\<close> every string of \<open>ws\<close>, repeatedly.\<close>

function trimPrefixes :: "string list \<Rightarrow> string \<Rightarrow> string" where
  "trimPrefixes ws s =
     (case find (\<lambda>w. w \<noteq> [] \<and> HasPrefix s w) ws of
        None \<Rightarrow> s
      | Some w \<Rightarrow> trimPrefixes ws (drop (length w) s))"
  by pat_completeness auto
termination
proof (relation "measure (\<lambda>(ws, s). length s)")
  fix ws :: "string list" and s w :: string
  assume "find (\<lambda>w. w \<noteq> [] \<and> HasPrefix s w) ws = Some w"
  then have "w \<noteq> []" and "length w \<le> length s"
    by (auto simp: find_Some_iff HasPrefix_def)
  then have "length (drop (length w) s) < length s"
    by (cases w) auto
  then show "((ws, drop (length w) s), (ws, s)) \<in> measure (\<lambda>(ws, s). length s)"
    by simp
qed simp

definition TrimSpace :: "string \<Rightarrow> string" where
  "TrimSpace s =
     rev (trimPrefixes (map rev spaceEncodings) (rev (trimPrefixes spaceEncodings s)))"

text \<open>
  The compiled pattern \<open>^(\d{1,3}\.){3}\d{1,3}$\<close>. In Go's syntax \<open>\d\<close> is an ASCII
  digit and \<open>$\<close> the end of the text. \<open>matchOctets n s\<close> matches \<open>n\<close> groups of one to
  three digits and a dot, then one to three digits, then the end.
\<close>

definition isDigit :: "char \<Rightarrow> bool" where
  "isDigit c = ((48::nat) \<le> of_char c \<and> of_char c \<le> (57::nat))"

fun matchOctets :: "nat \<Rightarrow> string \<Rightarrow> bool" where
  "matchOctets 0 s =
     (let d = takeWhile isDigit s; r = dropWhile isDigit s
      in 1 \<le> length d \<and> length d \<le> 3 \<and> r = [])"
| "matchOctets (Suc n) s =
     (let d = takeWhile isDigit s; r = dropWhile isDigit s
      in 1 \<le> length d \<and> length d \<le> 3
         \<and> (case r of [] \<Rightarrow> False | c # r' \<Rightarrow> c = CHR ''.'' \<and> matchOctets n r'))"

definition ipRegex_MatchString :: "string \<Rightarrow> bool" where
  "ipRegex_MatchString s = matchOctets 3 s"

text \<open>One to three ASCII digits: what \<open>\d{1,3}\<close> matches.\<close>

definition octet :: "string \<Rightarrow> bool" where
  "octet x = (1 \<le> length x \<and> length x \<le> 3 \<and> (\<forall>c \<in> set x. isDigit c))"

definition IPServices :: "string list" where
  "IPServices =
     [''https://ifconfig.me'', ''https://icanhazip.com'', ''https://ipinfo.io/ip'',
      ''https://api.ipify.org'', ''https://ipecho.net/plain'']"

text \<open>
  What a GET of one service gives: an error of \<open>client.Get\<close> (a time-out after ten
  seconds is one), an error while reading the body, or the body.
\<close>

datatype http_outcome = GetFailed | ReadFailed | GotBody string

datatype ip_error = NoPublicIP

text \<open>An answer the loop returns on: a body that matches once trimmed.\<close>

definition accepted :: "http_outcome \<Rightarrow> bool" where
  "accepted r =
     (case r of GotBody body \<Rightarrow> ipRegex_MatchString (TrimSpace body) | _ \<Rightarrow> False)"

text \<open>The loop of \<open>GetPublicIP\<close> over the services still to ask.\<close>

fun GetPublicIP_loop :: "(string \<Rightarrow> http_outcome) \<Rightarrow> string list \<Rightarrow> ip_error + string" where
  "GetPublicIP_loop get [] = Inl NoPublicIP"
| "GetPublicIP_loop get (service # rest) =
     (case get service of
        GetFailed \<Rightarrow> GetPublicIP_loop get rest
      | ReadFailed \<Rightarrow> GetPublicIP_loop get rest
      | GotBody body \<Rightarrow>
          (let ip = TrimSpace body
           in if ipRegex_MatchString ip then Inr ip else GetPublicIP_loop get rest))"

definition GetPublicIP :: "(string \<Rightarrow> http_outcome) \<Rightarrow> ip_error + string" where
  "GetPublicIP get = GetPublicIP_loop get IPServices"

subsection \<open>Self-updater: the binary swap (internal/updater/updater.go)\<close>

text \<open>
  The file system as the swap sees it: a path holds a file, with its content and its
  permission bits, or nothing.
\<close>

record regular_file =
  content :: "byte list"
  perm :: nat

type_synonym filesystem = "string \<Rightarrow> regular_file option"

text \<open>
  Each system call takes a flag that says whether the operating system refuses it for a
  reason outside the model (permissions, a read-only or full disk, an I/O error), and
  returns whether it succeeded with the file system it leaves.

  \<open>os.Rename\<close> fails when the old path holds nothing; otherwise it moves the file and
  replaces what the new path held.
\<close>

definition os_Rename ::
  "bool \<Rightarrow> filesystem \<Rightarrow> string \<Rightarrow> string \<Rightarrow> bool \<times> filesystem" where
  "os_Rename refused fs oldpath newpath =
     (if refused \<or> fs oldpath = None then (False, fs)
      else (True, (fs(oldpath := None))(newpath := fs oldpath)))"

definition os_Remove :: "bool \<Rightarrow> filesystem \<Rightarrow> string \<Rightarrow> bool \<times> filesystem" where
  "os_Remove refused fs path =
     (if refused \<or> fs path = None then (False, fs) else (True, fs(path := None)))"

definition os_Chmod :: "bool \<Rightarrow> filesystem \<Rightarrow> string \<Rightarrow> nat \<Rightarrow> bool \<times> filesystem" where
  "os_Chmod refused fs path mode =
     (case fs path of
        None \<Rightarrow> (False, fs)
      | Some f \<Rightarrow> if refused then (False, fs) else (True, fs(path \<mapsto> f\<lparr>perm := mode\<rparr>)))"

text \<open>
  \<open>os.RemoveAll\<close> removes a directory and everything below it. A path lies in the
  directory when it is the directory or continues it after a separator. \<open>kept\<close> says
  which paths the operating system refuses to remove; the call reports that as an
  error and removes the rest.
\<close>

definition in_dir :: "string \<Rightarrow> string \<Rightarrow> bool" where
  "in_dir dir path = (path = dir \<or> HasPrefix path (dir @ ''/''))"

definition os_RemoveAll ::
  "(string \<Rightarrow> bool) \<Rightarrow> filesystem \<Rightarrow> string \<Rightarrow> filesystem" where
  "os_RemoveAll kept fs dir =
     (\<lambda>path. if in_dir dir path \<and> \<not> kept path then None else fs path)"

text \<open>
  \<open>copyFile\<close> opens the source, creates the destination (truncating a file that is
  there), and copies. It can fail at each of the three; a copy that fails after \<open>k\<close>
  bytes leaves them in the destination. \<open>createPerm\<close> is the mode of a new file
  (\<open>0666\<close> less the umask).
\<close>

datatype copy_fault = NoFault | OpenFault | CreateFault | WriteFault nat

definition copyFile ::
  "copy_fault \<Rightarrow> nat \<Rightarrow> filesystem \<Rightarrow> string \<Rightarrow> string \<Rightarrow> bool \<times> filesystem" where
  "copyFile fault createPerm fs src dst =
     (if fs src = None \<or> fault = OpenFault then (False, fs)
      else if fault = CreateFault then (False, fs)
      else
        let destFile = (case fs dst of
                          None \<Rightarrow> \<lparr>content = [], perm = createPerm\<rparr>
                        | Some f \<Rightarrow> f\<lparr>content := []\<rparr>);
            fs1 = fs(dst \<mapsto> destFile);
            data = (case fs1 src of None \<Rightarrow> [] | Some sourceFile \<Rightarrow> content sourceFile)
        in case fault of
             WriteFault k \<Rightarrow> (False, fs1(dst \<mapsto> destFile\<lparr>content := take k data\<rparr>))
           | _ \<Rightarrow> (True, fs1(dst \<mapsto> destFile\<lparr>content := data\<rparr>)))"

text \<open>What the operating system refuses during one swap, call by call.\<close>

record swap_faults =
  backup_refused :: bool
  copy_fault :: copy_fault
  createPerm :: nat
  restore_after_copy_refused :: bool
  chmod_refused :: bool
  remove_new_refused :: bool
  restore_after_chmod_refused :: bool
  remove_backup_refused :: bool
  removeAll_kept :: "string \<Rightarrow> bool"

datatype swap_error = BackupFailed | InstallFailed | PermissionsFailed

text \<open>
  The statements at the end of \<open>Update\<close>, from \<open>Installing new version...\<close> on:
  \<open>binaryPath\<close> is the downloaded (and extracted) binary, \<open>execPath\<close> the resolved
  path of the running executable. The mode \<open>0755\<close> is 493. The errors of the calls
  written \<open>_ = ...\<close> in the source are dropped.
\<close>

definition Update_swap_steps ::
  "swap_faults \<Rightarrow> filesystem \<Rightarrow> string \<Rightarrow> string \<Rightarrow> swap_error option \<times> filesystem" where
  "Update_swap_steps os fs binaryPath execPath =
     (let backupPath = execPath @ ''.backup'' in
      case os_Rename (backup_refused os) fs execPath backupPath of
        (False, fs1) \<Rightarrow> (Some BackupFailed, fs1)
      | (True, fs1) \<Rightarrow>
          (case copyFile (copy_fault os) (createPerm os) fs1 binaryPath execPath of
             (False, fs2) \<Rightarrow>
               (let (_, fs3) = os_Rename (restore_after_copy_refused os) fs2 backupPath execPath
                in (Some InstallFailed, fs3))
           | (True, fs2) \<Rightarrow>
               (case os_Chmod (chmod_refused os) fs2 execPath 493 of
                  (False, fs3) \<Rightarrow>
                    (let (_, fs4) = os_Remove (remove_new_refused os) fs3 execPath;
                         (_, fs5) = os_Rename (restore_after_chmod_refused os) fs4
                                      backupPath execPath
                     in (Some PermissionsFailed, fs5))
                | (True, fs3) \<Rightarrow>
                    (let (_, fs4) = os_Remove (remove_backup_refused os) fs3 backupPath
                     in (None, fs4)))))"

text \<open>
  \<open>Update\<close> has registered \<open>defer os.RemoveAll(tempDir)\<close> right after creating its
  temporary directory, so the removal runs at every return of the statements above,
  after them, and its error is dropped. \<open>Update_swap\<close> is the end of \<open>Update\<close> as
  the caller sees it: the error returned and the file system left behind.
\<close>

definition Update_swap ::
  "swap_faults \<Rightarrow> filesystem \<Rightarrow> string \<Rightarrow> string \<Rightarrow> string
     \<Rightarrow> swap_error option \<times> filesystem" where
  "Update_swap os fs tempDir binaryPath execPath =
     (let (err, fs') = Update_swap_steps os fs binaryPath execPath
      in (err, os_RemoveAll (removeAll_kept os) fs' tempDir))"

subsection \<open>The install sequence (internal/cli, command \<open>install\<close>)\<close>

text \<open>The command line flags of \<open>install\<close>.\<close>

record install_flags =
  installHTTPPort :: int
  installHTTPUser :: string
  installHTTPPass :: string
  installHTTPNoAuth :: bool
  installSSEnabled :: bool
  installSSPort :: int
  installSSPassword :: string
  installSSMethod :: string
  installHTTPSEnabled :: bool
  installHTTPSPort :: int
  installGOSTVersion :: string
  installSkipFirewall :: bool

text \<open>
  What the host answers to each call of the sequence: the effective user id, the
  outcome of \<open>DetectOS\<close>, the answers of the IP services, the outcomes of the two calls
  of \<open>GeneratePassword(16)\<close>, whether GOST is installed and its service active, and
  for every other call whether it returns an error.
\<close>

record install_env =
  euid :: nat
  detectOS_result :: "detect_error + OSInfo"
  ip_responses :: "string \<Rightarrow> http_outcome"
  httpPassword_result :: "pw_error + string"
  ssPassword_result :: "pw_error + string"
  isInstalled :: bool
  existingActive :: bool
  stop_fails :: bool
  backup_fails :: bool
  installGOST_fails :: bool
  generateCert_fails :: bool
  generateConfig_fails :: bool
  saveWTEConfig_fails :: bool
  createService_fails :: bool
  daemonReload_fails :: bool
  enable_fails :: bool
  start_fails :: bool
  openPorts_fails :: bool
  saveCredentials_fails :: bool

text \<open>The calls of the sequence that can return an error.\<close>

datatype op =
    OpCheckRoot | OpDetectOS | OpGetPublicIP | OpGenerateHTTPPassword
  | OpGenerateSSPassword | OpStopService | OpBackupConfig | OpInstallGOST
  | OpGenerateCert | OpValidate | OpGenerateConfig | OpSaveWTEConfig
  | OpCreateService | OpDaemonReload | OpEnable | OpStart | OpStatus
  | OpOpenPorts | OpSaveCredentials

text \<open>
  The trace of a run: \<open>Called op ok\<close> for a call and whether it succeeded, \<open>Warning op\<close>
  for the warning printed about a failed call.
\<close>

datatype event = Called op bool | Warning op

datatype install_error =
    NotRoot
  | DetectOSFailed detect_error
  | HTTPPasswordFailed pw_error
  | SSPasswordFailed pw_error
  | InstallGOSTFailed
  | CertificateFailed
  | ValidationFailed validate_error
  | GenerateConfigFailed
  | CreateServiceFailed
  | DaemonReloadFailed
  | EnableFailed
  | StartFailed

text \<open>
  The local variables of \<open>runInstall\<close>, the trace, and the error returned
  (\<open>result = None\<close> while none is).
\<close>

record install_state =
  events :: "event list"
  publicIP :: string
  cfg :: Config
  result :: "install_error option"

text \<open>\<open>if err != nil { return ... }\<close> after a call.\<close>

definition fatal :: "op \<Rightarrow> install_error option \<Rightarrow> install_state \<Rightarrow> install_state" where
  "fatal opn err s =
     (case err of
        None \<Rightarrow> s\<lparr>events := events s @ [Called opn True]\<rparr>
      | Some e \<Rightarrow> s\<lparr>events := events s @ [Called opn False], result := Some e\<rparr>)"

text \<open>\<open>if err != nil { ui.Warning(...) }\<close> after a call.\<close>

definition advisory :: "op \<Rightarrow> bool \<Rightarrow> install_state \<Rightarrow> install_state" where
  "advisory opn failed s =
     (if failed then s\<lparr>events := events s @ [Called opn False, Warning opn]\<rparr>
      else s\<lparr>events := events s @ [Called opn True]\<rparr>)"

definition failing :: "bool \<Rightarrow> install_error \<Rightarrow> install_error option" where
  "failing b e = (if b then Some e else None)"

definition install_checkRoot :: "install_env \<Rightarrow> install_state \<Rightarrow> install_state" where
  "install_checkRoot env s = fatal OpCheckRoot (failing (euid env \<noteq> 0) NotRoot) s"

text \<open>Step 1: detect the operating system.\<close>

definition install_detectOS :: "install_env \<Rightarrow> install_state \<Rightarrow> install_state" where
  "install_detectOS env s =
     (case detectOS_result env of
        Inl err \<Rightarrow> fatal OpDetectOS (Some (DetectOSFailed err)) s
      | Inr osInfo \<Rightarrow> fatal OpDetectOS None s)"

text \<open>Step 2: get the public IP; on an error warn and go on with a placeholder.\<close>

definition install_publicIP :: "install_env \<Rightarrow> install_state \<Rightarrow> install_state" where
  "install_publicIP env s =
     (case GetPublicIP (ip_responses env) of
        Inl err \<Rightarrow> (advisory OpGetPublicIP True s)\<lparr>publicIP := ''YOUR_SERVER_IP''\<rparr>
      | Inr ip \<Rightarrow> (advisory OpGetPublicIP False s)\<lparr>publicIP := ip\<rparr>)"

text \<open>Step 3: the configuration from the defaults and the flags, then the passwords.\<close>

definition install_prepareConfig :: "install_flags \<Rightarrow> install_state \<Rightarrow> install_state" where
  "install_prepareConfig fl s =
     s\<lparr>cfg :=
         DefaultConfig
           \<lparr> GOST := (GOST DefaultConfig)\<lparr>Version := installGOSTVersion fl\<rparr>,
             HTTP := (HTTP DefaultConfig)
               \<lparr> http_Port := installHTTPPort fl,
                 http_Auth := (http_Auth (HTTP DefaultConfig))
                   \<lparr> Username := installHTTPUser fl,
                     auth_Enabled := \<not> installHTTPNoAuth fl \<rparr> \<rparr>,
             Shadowsocks := (Shadowsocks DefaultConfig)
               \<lparr> ss_Enabled := installSSEnabled fl,
                 ss_Port := installSSPort fl,
                 Method := installSSMethod fl \<rparr>,
             HTTPS := (HTTPS DefaultConfig)
               \<lparr> https_Enabled := installHTTPSEnabled fl,
                 https_Port := installHTTPSPort fl \<rparr>,
             Firewall := (Firewall DefaultConfig)
               \<lparr> AutoConfigure := \<not> installSkipFirewall fl \<rparr> \<rparr>\<rparr>"

definition setHTTPPassword :: "string \<Rightarrow> install_state \<Rightarrow> install_state" where
  "setHTTPPassword pass s =
     s\<lparr>cfg := (cfg s)\<lparr>HTTP := (HTTP (cfg s))
          \<lparr>http_Auth := (http_Auth (HTTP (cfg s)))\<lparr>auth_Password := pass\<rparr>\<rparr>\<rparr>\<rparr>"

definition install_httpPassword ::
  "install_env \<Rightarrow> install_flags \<Rightarrow> install_state \<Rightarrow> install_state" where
  "install_httpPassword env fl s =
     (if auth_Enabled (http_Auth (HTTP (cfg s))) then
        (if installHTTPPass fl \<noteq> [] then setHTTPPassword (installHTTPPass fl) s
         else (case httpPassword_result env of
                 Inl err \<Rightarrow> fatal OpGenerateHTTPPassword (Some (HTTPPasswordFailed err)) s
               | Inr pass \<Rightarrow> setHTTPPassword pass (fatal OpGenerateHTTPPassword None s)))
      else s)"

definition setSSPassword :: "string \<Rightarrow> install_state \<Rightarrow> install_state" where
  "setSSPassword pass s =
     s\<lparr>cfg := (cfg s)\<lparr>Shadowsocks := (Shadowsocks (cfg s))\<lparr>ss_Password := pass\<rparr>\<rparr>\<rparr>"

definition install_ssPassword ::
  "install_env \<Rightarrow> install_flags \<Rightarrow> install_state \<Rightarrow> install_state" where
  "install_ssPassword env fl s =
     (if ss_Enabled (Shadowsocks (cfg s)) then
        (if installSSPassword fl \<noteq> [] then setSSPassword (installSSPassword fl) s
         else (case ssPassword_result env of
                 Inl err \<Rightarrow> fatal OpGenerateSSPassword (Some (SSPasswordFailed err)) s
               | Inr pass \<Rightarrow> setSSPassword pass (fatal OpGenerateSSPassword None s)))
      else s)"

definition install_httpsAuth :: "install_state \<Rightarrow> install_state" where
  "install_httpsAuth s =
     s\<lparr>cfg := (cfg s)\<lparr>HTTPS := (HTTPS (cfg s))\<lparr>https_Auth := http_Auth (HTTP (cfg s))\<rparr>\<rparr>\<rparr>"

text \<open>
  Step 4: an existing installation. Its service is stopped when active, its
  configuration backed up; a failure of either is a warning.
\<close>

definition install_existing :: "install_env \<Rightarrow> install_state \<Rightarrow> install_state" where
  "install_existing env s =
     (if isInstalled env then
        advisory OpBackupConfig (backup_fails env)
          (if existingActive env then advisory OpStopService (stop_fails env) s else s)
      else s)"

text \<open>Step 5: install GOST.\<close>

definition install_gost :: "install_env \<Rightarrow> install_state \<Rightarrow> install_state" where
  "install_gost env s = fatal OpInstallGOST (failing (installGOST_fails env) InstallGOSTFailed) s"

text \<open>Step 6: the TLS certificate, when HTTPS is enabled.\<close>

definition install_certificate :: "install_env \<Rightarrow> install_state \<Rightarrow> install_state" where
  "install_certificate env s =
     (if https_Enabled (HTTPS (cfg s))
      then fatal OpGenerateCert (failing (generateCert_fails env) CertificateFailed) s
      else s)"

text \<open>Step 7: validate and write the GOST configuration, then save the tool's own.\<close>

definition install_validate :: "install_state \<Rightarrow> install_state" where
  "install_validate s = fatal OpValidate (map_option ValidationFailed (Validate (cfg s))) s"

definition install_generate :: "install_env \<Rightarrow> install_state \<Rightarrow> install_state" where
  "install_generate env s =
     fatal OpGenerateConfig (failing (generateConfig_fails env) GenerateConfigFailed) s"

definition install_saveConfig :: "install_env \<Rightarrow> install_state \<Rightarrow> install_state" where
  "install_saveConfig env s = advisory OpSaveWTEConfig (saveWTEConfig_fails env) s"

text \<open>
  Step 8: the systemd service. \<open>Status\<close> never returns an error, so its warning is
  never printed.
\<close>

definition install_createService :: "install_env \<Rightarrow> install_state \<Rightarrow> install_state" where
  "install_createService env s =
     fatal OpCreateService (failing (createService_fails env) CreateServiceFailed) s"

definition install_daemonReload :: "install_env \<Rightarrow> install_state \<Rightarrow> install_state" where
  "install_daemonReload env s =
     fatal OpDaemonReload (failing (daemonReload_fails env) DaemonReloadFailed) s"

definition install_enable :: "install_env \<Rightarrow> install_state \<Rightarrow> install_state" where
  "install_enable env s = fatal OpEnable (failing (enable_fails env) EnableFailed) s"

definition install_start :: "install_env \<Rightarrow> install_state \<Rightarrow> install_state" where
  "install_start env s = fatal OpStart (failing (start_fails env) StartFailed) s"

definition install_status :: "install_state \<Rightarrow> install_state" where
  "install_status s = advisory OpStatus False s"

text \<open>Step 9: the firewall, unless \<open>--skip-firewall\<close> was given.\<close>

definition install_firewall :: "install_env \<Rightarrow> install_state \<Rightarrow> install_state" where
  "install_firewall env s =
     (if AutoConfigure (Firewall (cfg s))
      then advisory OpOpenPorts (openPorts_fails env) s
      else s)"

definition install_saveCredentials :: "install_env \<Rightarrow> install_state \<Rightarrow> install_state" where
  "install_saveCredentials env s = advisory OpSaveCredentials (saveCredentials_fails env) s"

text \<open>A step runs only while no error has been returned.\<close>

definition run_steps ::
  "(install_state \<Rightarrow> install_state) list \<Rightarrow> install_state \<Rightarrow> install_state" where
  "run_steps steps s = foldl (\<lambda>s step. if result s = None then step s else s) s steps"

definition install_steps ::
  "install_env \<Rightarrow> install_flags \<Rightarrow> (install_state \<Rightarrow> install_state) list" where
  "install_steps env fl =
     [install_checkRoot env,
      install_detectOS env,
      install_publicIP env,
      install_prepareConfig fl,
      install_httpPassword env fl,
      install_ssPassword env fl,
      install_httpsAuth,
      install_existing env,
      install_gost env,
      install_certificate env,
      install_validate,
      install_generate env,
      install_saveConfig env,
      install_createService env,
      install_daemonReload env,
      install_enable env,
      install_start env,
      install_status,
      install_firewall env,
      install_saveCredentials env]"

definition initial_state :: install_state where
  "initial_state = \<lparr> events = [], publicIP = [], cfg = DefaultConfig, result = None \<rparr>"

definition runInstall :: "install_env \<Rightarrow> install_flags \<Rightarrow> install_state" where
  "runInstall env fl = run_steps (install_steps env fl) initial_state"

text \<open>
  The calls whose error \<open>runInstall\<close> returns, and the calls whose error it prints as a
  warning before it goes on.
\<close>

definition fatal_ops :: "op set" where
  "fatal_ops =
     {OpCheckRoot, OpDetectOS, OpGenerateHTTPPassword, OpGenerateSSPassword, OpInstallGOST,
      OpGenerateCert, OpValidate, OpGenerateConfig, OpCreateService, OpDaemonReload,
      OpEnable, OpStart}"

definition advisory_ops :: "op set" where
  "advisory_ops =
     {OpGetPublicIP, OpStopService, OpBackupConfig, OpSaveWTEConfig, OpStatus, OpOpenPorts,
      OpSaveCredentials}"

text \<open>
  Each error that \<open>runInstall\<close> returns is made in the \<open>return\<close> statement that
  follows one call: \<open>error_op\<close> is that call, and \<open>caused env c e\<close> says that the host
  \<open>env\<close> (and, for the validation, the configuration \<open>c\<close>) makes the call fail with
  the error that \<open>e\<close> wraps.
\<close>

fun error_op :: "install_error \<Rightarrow> op" where
  "error_op NotRoot = OpCheckRoot"
| "error_op (DetectOSFailed err) = OpDetectOS"
| "error_op (HTTPPasswordFailed err) = OpGenerateHTTPPassword"
| "error_op (SSPasswordFailed err) = OpGenerateSSPassword"
| "error_op InstallGOSTFailed = OpInstallGOST"
| "error_op CertificateFailed = OpGenerateCert"
| "error_op (ValidationFailed err) = OpValidate"
| "error_op GenerateConfigFailed = OpGenerateConfig"
| "error_op CreateServiceFailed = OpCreateService"
| "error_op DaemonReloadFailed = OpDaemonReload"
| "error_op EnableFailed = OpEnable"
| "error_op StartFailed = OpStart"

fun caused :: "install_env \<Rightarrow> Config \<Rightarrow> install_error \<Rightarrow> bool" where
  "caused env c NotRoot = (euid env \<noteq> 0)"
| "caused env c (DetectOSFailed err) = (detectOS_result env = Inl err)"
| "caused env c (HTTPPasswordFailed err) = (httpPassword_result env = Inl err)"
| "caused env c (SSPasswordFailed err) = (ssPassword_result env = Inl err)"
| "caused env c InstallGOSTFailed = installGOST_fails env"
| "caused env c CertificateFailed = generateCert_fails env"
| "caused env c (ValidationFailed err) = (Validate c = Some err)"
| "caused env c GenerateConfigFailed = generateConfig_fails env"
| "caused env c CreateServiceFailed = createService_fails env"
| "caused env c DaemonReloadFailed = daemonReload_fails env"
| "caused env c EnableFailed = enable_fails env"
| "caused env c StartFailed = start_fails env"

text \<open>
  Every failed call in the trace of a state is either advisory and followed by its
  warning, or fatal, the last event, and the call whose error is the one returned; and
  an error returned is the error of the last call, which is fatal and has failed.
\<close>

definition consistent :: "install_env \<Rightarrow> install_state \<Rightarrow> bool" where
  "consistent env s =
     ((\<forall>opn. Called opn False \<in> set (events s) \<longrightarrow>
          (opn \<in> advisory_ops \<and> Warning opn \<in> set (events s))
          \<or> (opn \<in> fatal_ops \<and> (\<exists>e. result s = Some e \<and> error_op e = opn)
              \<and> last (events s) = Called opn False))
      \<and> (\<forall>e. result s = Some e \<longrightarrow>
           events s \<noteq> [] \<and> error_op e \<in> fatal_ops
           \<and> last (events s) = Called (error_op e) False
           \<and> caused env (cfg s) e))"

text \<open>A step keeps the trace consistent.\<close>

definition keeps :: "install_env \<Rightarrow> (install_state \<Rightarrow> install_state) \<Rightarrow> bool" where
  "keeps env step = (\<forall>s. consistent env s \<and> result s = None \<longrightarrow> consistent env (step s))"

subsection \<open>Configuration loader (internal/config/loader.go)\<close>

text \<open>
  The loader is glue around two libraries, \<open>yaml.v3\<close> and \<open>viper\<close>. Their text
  handling is not modelled: a YAML document is the list of its scalars, each under its
  dotted key, which is what \<open>yaml.Marshal\<close> writes for the \<open>yaml\<close> tags of \<open>Config\<close>
  and what \<open>viper\<close> reads back; a key that holds a scalar where the keys below it
  would need a map is an entry of its own. What is modelled of \<open>viper\<close> is the lookup
  of a key, layer by layer: a value set with \<open>viper.Set\<close>, then (after
  \<open>AutomaticEnv\<close>) a non-empty environment variable, then the configuration file,
  then the default; and at each layer, when the key is not found there but a parent of
  the key holds a value, the key is shadowed and the lookup ends with nothing.
\<close>

datatype yaml_value = YBool bool | YInt int | YString string

type_synonym settings = "(string \<times> yaml_value) list"

datatype yaml_file = Unparsable | Document settings

text \<open>\<open>yaml.Marshal(cfg)\<close>: every field of \<open>Config\<close> under the key its \<open>yaml\<close> tags spell.\<close>

definition yaml_Marshal :: "Config \<Rightarrow> settings" where
  "yaml_Marshal c =
     [(''gost.version'', YString (Version (GOST c))),
      (''gost.binary_path'', YString (BinaryPath (GOST c))),
      (''gost.config_dir'', YString (ConfigDir (GOST c))),
      (''gost.config_file'', YString (ConfigFile (GOST c))),
      (''http.enabled'', YBool (http_Enabled (HTTP c))),
      (''http.port'', YInt (http_Port (HTTP c))),
      (''http.auth.enabled'', YBool (auth_Enabled (http_Auth (HTTP c)))),
      (''http.auth.username'', YString (Username (http_Auth (HTTP c)))),
      (''http.auth.password'', YString (auth_Password (http_Auth (HTTP c)))),
      (''https.enabled'', YBool (https_Enabled (HTTPS c))),
      (''https.port'', YInt (https_Port (HTTPS c))),
      (''https.cert_path'', YString (CertPath (HTTPS c))),
      (''https.key_path'', YString (KeyPath (HTTPS c))),
      (''https.auth.enabled'', YBool (auth_Enabled (https_Auth (HTTPS c)))),
      (''https.auth.username'', YString (Username (https_Auth (HTTPS c)))),
      (''https.auth.password'', YString (auth_Password (https_Auth (HTTPS c)))),
      (''shadowsocks.enabled'', YBool (ss_Enabled (Shadowsocks c))),
      (''shadowsocks.port'', YInt (ss_Port (Shadowsocks c))),
      (''shadowsocks.method'', YString (Method (Shadowsocks c))),
      (''shadowsocks.password'', YString (ss_Password (Shadowsocks c))),
      (''firewall.auto_configure'', YBool (AutoConfigure (Firewall c))),
      (''logging.level'', YString (Level (Logging c)))]"

text \<open>The defaults \<open>setDefaults\<close> gives to \<open>viper\<close>.\<close>

definition setDefaults :: settings where
  "setDefaults =
     [(''gost.version'', YString DefaultGOSTVersion),
      (''gost.binary_path'', YString DefaultGOSTBinaryPath),
      (''gost.config_dir'', YString DefaultGOSTConfigDir),
      (''gost.config_file'', YString DefaultGOSTConfigFile),
      (''http.enabled'', YBool True),
      (''http.port'', YInt DefaultHTTPPort),
      (''http.auth.enabled'', YBool True),
      (''http.auth.username'', YString DefaultUsername),
      (''http.auth.password'', YString []),
      (''https.enabled'', YBool False),
      (''https.port'', YInt DefaultHTTPSPort),
      (''https.cert_path'', YString (DefaultGOSTConfigDir @ ''/cert.pem'')),
      (''https.key_path'', YString (DefaultGOSTConfigDir @ ''/key.pem'')),
      (''https.auth.enabled'', YBool True),
      (''https.auth.username'', YString DefaultUsername),
      (''https.auth.password'', YString []),
      (''shadowsocks.enabled'', YBool True),
      (''shadowsocks.port'', YInt DefaultShadowsocksPort),
      (''shadowsocks.method'', YString DefaultShadowsocksMethod),
      (''shadowsocks.password'', YString []),
      (''firewall.auto_configure'', YBool True),
      (''logging.level'', YString DefaultLogLevel)]"

definition config_keys :: "string list" where
  "config_keys = map fst setDefaults"

text \<open>
  The process-wide \<open>viper\<close>: the configuration type set with \<open>SetConfigType\<close>
  (empty when none was set) and the layers of values.
\<close>

record viper =
  v_configType :: string
  v_override :: settings
  v_config :: settings
  v_defaults :: settings

text \<open>
  What the loader finds around it: the environment, whether creating the directory or
  writing the file fails, the file \<open>viper\<close> finds when no path is given, what
  \<open>viper\<close> makes of a file whose configuration type is not YAML (it refuses the type,
  or hands the text to another codec: \<open>None\<close> is an error), and the conversions of
  \<open>strconv\<close> that the decoder uses on values of another type.
\<close>

record loader_io =
  getenv :: "string \<Rightarrow> string option"
  mkdir_fails :: bool
  write_fails :: bool
  found_config :: "string option"
  other_codec :: "string \<Rightarrow> yaml_file \<Rightarrow> settings option"
  parseBool :: "string \<Rightarrow> bool option"
  parseInt :: "string \<Rightarrow> int option"
  formatInt :: "int \<Rightarrow> string"

text \<open>The package-level variables \<open>cfg\<close> and \<open>ConfigPath\<close>, \<open>viper\<close>, and the files.\<close>

record loader_state =
  config_cfg :: "Config option"
  ConfigPath :: string
  the_viper :: viper
  files :: "string \<Rightarrow> yaml_file option"

text \<open>
  The name of the environment variable for a key, with \<open>SetEnvPrefix("WTE")\<close> and the
  replacer of \<open>.\<close> by \<open>_\<close>: \<open>http.port\<close> is \<open>WTE_HTTP_PORT\<close>. \<open>ToUpper\<close> is
  \<open>strings.ToUpper\<close> on ASCII strings, which the keys are.
\<close>

definition ToUpper :: "string \<Rightarrow> string" where
  "ToUpper s =
     map (\<lambda>c. case map_of (zip ''abcdefghijklmnopqrstuvwxyz'' ''ABCDEFGHIJKLMNOPQRSTUVWXYZ'') c of
                Some u \<Rightarrow> u
              | None \<Rightarrow> c) s"

definition envVarName :: "string \<Rightarrow> string" where
  "envVarName key =
     ToUpper (''WTE'' @ ''_'' @ map (\<lambda>c. if c = CHR ''.'' then CHR ''_'' else c) key)"

text \<open>
  \<open>viper\<close>'s \<open>getEnv\<close> for a key: the variable counts when it is set and, as
  \<open>AllowEmptyEnv\<close> is off, not empty.
\<close>

definition getEnv :: "loader_io \<Rightarrow> string \<Rightarrow> string option" where
  "getEnv io key =
     (case getenv io (envVarName key) of
        Some s \<Rightarrow> if s \<noteq> [] then Some s else None
      | None \<Rightarrow> None)"

text \<open>
  \<open>strings.Split\<close> at a one-character separator and \<open>strings.Join\<close>. The parents of
  a key are the proper prefixes of its path: \<open>http.auth.password\<close> has the parents
  \<open>http\<close> and \<open>http.auth\<close>, and a key without a dot has none.
\<close>

definition Split :: "string \<Rightarrow> char \<Rightarrow> string list" where
  "Split s sep =
     foldr (\<lambda>c acc. if c = sep then [] # acc else (c # hd acc) # tl acc) s [[]]"

fun Join :: "string list \<Rightarrow> string \<Rightarrow> string" where
  "Join [] sep = []"
| "Join [x] sep = x"
| "Join (x # y # rest) sep = x @ sep @ Join (y # rest) sep"

definition parentKeys :: "string \<Rightarrow> string list" where
  "parentKeys key =
     (let path = Split key (CHR ''.'')
      in map (\<lambda>i. Join (take i path) ''.'') [1 ..< length path])"

text \<open>
  \<open>isPathShadowedInDeepMap\<close> and \<open>isPathShadowedInAutoEnv\<close> of \<open>viper\<close>: a parent of
  the key holds a scalar in the layer, or has its environment variable set.
\<close>

definition isPathShadowedInDeepMap :: "settings \<Rightarrow> string \<Rightarrow> bool" where
  "isPathShadowedInDeepMap m key = list_ex (\<lambda>p. map_of m p \<noteq> None) (parentKeys key)"

definition isPathShadowedInAutoEnv :: "loader_io \<Rightarrow> string \<Rightarrow> bool" where
  "isPathShadowedInAutoEnv io key = list_ex (\<lambda>p. getEnv io p \<noteq> None) (parentKeys key)"

text \<open>
  \<open>viper.Get\<close> for a key (the keys of the loader are in lower case already). The
  layers of flags, of bound variables and of a remote store are empty here.
\<close>

definition viper_Get :: "loader_io \<Rightarrow> viper \<Rightarrow> string \<Rightarrow> yaml_value option" where
  "viper_Get io v key =
     (case map_of (v_override v) key of
        Some x \<Rightarrow> Some x
      | None \<Rightarrow>
          if isPathShadowedInDeepMap (v_override v) key then None
          else
            (case getEnv io key of
               Some s \<Rightarrow> Some (YString s)
             | None \<Rightarrow>
                 if isPathShadowedInAutoEnv io key then None
                 else
                   (case map_of (v_config v) key of
                      Some x \<Rightarrow> Some x
                    | None \<Rightarrow>
                        if isPathShadowedInDeepMap (v_config v) key then None
                        else map_of (v_defaults v) key)))"

text \<open>
  The decoder of \<open>viper.Unmarshal\<close> converts weakly between the scalar types. A field
  whose key is missing, or whose value does not convert, keeps its zero value; the
  second component says whether the value converted.
\<close>

definition decodeString :: "loader_io \<Rightarrow> yaml_value option \<Rightarrow> string \<times> bool" where
  "decodeString io v =
     (case v of
        None \<Rightarrow> ([], True)
      | Some (YString s) \<Rightarrow> (s, True)
      | Some (YInt i) \<Rightarrow> (formatInt io i, True)
      | Some (YBool b) \<Rightarrow> (if b then ''1'' else ''0'', True))"

definition decodeInt :: "loader_io \<Rightarrow> yaml_value option \<Rightarrow> int \<times> bool" where
  "decodeInt io v =
     (case v of
        None \<Rightarrow> (0, True)
      | Some (YInt i) \<Rightarrow> (i, True)
      | Some (YBool b) \<Rightarrow> (if b then 1 else 0, True)
      | Some (YString s) \<Rightarrow>
          (case parseInt io s of Some i \<Rightarrow> (i, True) | None \<Rightarrow> (0, False)))"

definition decodeBool :: "loader_io \<Rightarrow> yaml_value option \<Rightarrow> bool \<times> bool" where
  "decodeBool io v =
     (case v of
        None \<Rightarrow> (False, True)
      | Some (YBool b) \<Rightarrow> (b, True)
      | Some (YInt i) \<Rightarrow> (i \<noteq> 0, True)
      | Some (YString s) \<Rightarrow>
          (case parseBool io s of
             Some b \<Rightarrow> (b, True)
           | None \<Rightarrow> if s = [] then (False, True) else (False, False)))"

text \<open>
  \<open>viper.Unmarshal(cfg)\<close>: every field of \<open>Config\<close> from the key its \<open>mapstructure\<close>
  tags spell; \<open>Unmarshal_ok\<close> holds when every value converted.
\<close>

definition Unmarshal :: "loader_io \<Rightarrow> (string \<Rightarrow> yaml_value option) \<Rightarrow> Config" where
  "Unmarshal io get =
     \<lparr> GOST = \<lparr> Version = fst (decodeString io (get ''gost.version'')),
                BinaryPath = fst (decodeString io (get ''gost.binary_path'')),
                ConfigDir = fst (decodeString io (get ''gost.config_dir'')),
                ConfigFile = fst (decodeString io (get ''gost.config_file'')) \<rparr>,
       HTTP = \<lparr> http_Enabled = fst (decodeBool io (get ''http.enabled'')),
                http_Port = fst (decodeInt io (get ''http.port'')),
                http_Auth =
                  \<lparr> auth_Enabled = fst (decodeBool io (get ''http.auth.enabled'')),
                    Username = fst (decodeString io (get ''http.auth.username'')),
                    auth_Password = fst (decodeString io (get ''http.auth.password'')) \<rparr> \<rparr>,
       HTTPS = \<lparr> https_Enabled = fst (decodeBool io (get ''https.enabled'')),
                 https_Port = fst (decodeInt io (get ''https.port'')),
                 CertPath = fst (decodeString io (get ''https.cert_path'')),
                 KeyPath = fst (decodeString io (get ''https.key_path'')),
                 https_Auth =
                   \<lparr> auth_Enabled = fst (decodeBool io (get ''https.auth.enabled'')),
                     Username = fst (decodeString io (get ''https.auth.username'')),
                     auth_Password = fst (decodeString io (get ''https.auth.password'')) \<rparr> \<rparr>,
       Shadowsocks =
         \<lparr> ss_Enabled = fst (decodeBool io (get ''shadowsocks.enabled'')),
           ss_Port = fst (decodeInt io (get ''shadowsocks.port'')),
           Method = fst (decodeString io (get ''shadowsocks.method'')),
           ss_Password = fst (decodeString io (get ''shadowsocks.password'')) \<rparr>,
       Firewall = \<lparr> AutoConfigure = fst (decodeBool io (get ''firewall.auto_configure'')) \<rparr>,
       Logging = \<lparr> Level = fst (decodeString io (get ''logging.level'')) \<rparr> \<rparr>"

definition Unmarshal_ok :: "loader_io \<Rightarrow> (string \<Rightarrow> yaml_value option) \<Rightarrow> bool" where
  "Unmarshal_ok io get =
     (list_all (\<lambda>k. snd (decodeString io (get k)))
        [''gost.version'', ''gost.binary_path'', ''gost.config_dir'', ''gost.config_file'',
         ''http.auth.username'', ''http.auth.password'', ''https.cert_path'',
         ''https.key_path'', ''https.auth.username'', ''https.auth.password'',
         ''shadowsocks.method'', ''shadowsocks.password'', ''logging.level'']
      \<and> list_all (\<lambda>k. snd (decodeBool io (get k)))
        [''http.enabled'', ''http.auth.enabled'', ''https.enabled'', ''https.auth.enabled'',
         ''shadowsocks.enabled'', ''firewall.auto_configure'']
      \<and> list_all (\<lambda>k. snd (decodeInt io (get k)))
        [''http.port'', ''https.port'', ''shadowsocks.port''])"

datatype loader_error =
    MkdirFailed | MarshalFailed | WriteFailed | ReadConfigFailed | UnmarshalFailed

text \<open>
  \<open>filepath.Ext\<close> without its dot: what follows the last dot of the last element of
  the path. \<open>viper\<close> takes the configuration type that was set, and the extension of
  the file otherwise.
\<close>

definition Ext :: "string \<Rightarrow> string" where
  "Ext path =
     (let base = takeWhile (\<lambda>c. c \<noteq> CHR ''/'') (rev path)
      in if CHR ''.'' \<in> set base then rev (takeWhile (\<lambda>c. c \<noteq> CHR ''.'') base) else [])"

definition getConfigType :: "viper \<Rightarrow> string \<Rightarrow> string" where
  "getConfigType v configFile = (if v_configType v \<noteq> [] then v_configType v else Ext configFile)"

text \<open>
  \<open>viper.ReadInConfig\<close> on a file that was given or found: the file is decoded by its
  configuration type, and the configuration layer is replaced by what it holds.
\<close>

definition readConfig :: "loader_io \<Rightarrow> viper \<Rightarrow> string \<Rightarrow> yaml_file \<Rightarrow> settings option" where
  "readConfig io v configFile f =
     (if getConfigType v configFile \<in> {''yaml'', ''yml''}
      then (case f of Unparsable \<Rightarrow> None | Document d \<Rightarrow> Some d)
      else other_codec io (getConfigType v configFile) f)"

text \<open>
  \<open>Init\<close>. Without a path it sets the configuration type \<open>yaml\<close> and lets \<open>viper\<close>
  look for the file; finding none is not an error. With a path, a file that is
  missing or does not decode is an error. \<open>cfg\<close> is replaced before the decoder of
  \<open>Unmarshal\<close> runs.
\<close>

definition Init :: "loader_io \<Rightarrow> string \<Rightarrow> loader_state \<Rightarrow> loader_error option \<times> loader_state" where
  "Init io configPath st =
     (let st1 = st\<lparr>ConfigPath := configPath,
                    the_viper := (the_viper st)
                      \<lparr>v_defaults := setDefaults,
                       v_configType := (if configPath \<noteq> [] then v_configType (the_viper st)
                                        else ''yaml'')\<rparr>\<rparr>;
          configFile = (if configPath \<noteq> [] then Some configPath else found_config io);
          readResult =
            (case configFile of
               None \<Rightarrow> Inr st1
             | Some p \<Rightarrow>
                 (case files st1 p of
                    None \<Rightarrow> if configPath \<noteq> [] then Inl ReadConfigFailed else Inr st1
                  | Some f \<Rightarrow>
                      (case readConfig io (the_viper st1) p f of
                         None \<Rightarrow> Inl ReadConfigFailed
                       | Some d \<Rightarrow> Inr (st1\<lparr>the_viper := (the_viper st1)\<lparr>v_config := d\<rparr>\<rparr>))))
      in case readResult of
           Inl err \<Rightarrow> (Some err, st1)
         | Inr st2 \<Rightarrow>
             (let get = viper_Get io (the_viper st2);
                  st3 = st2\<lparr>config_cfg := Some (Unmarshal io get)\<rparr>
              in if Unmarshal_ok io get then (None, st3) else (Some UnmarshalFailed, st3)))"

text \<open>\<open>SaveTo\<close>. A nil \<open>cfg\<close> is written as the document \<open>null\<close>, which holds no key.\<close>

definition SaveTo :: "loader_io \<Rightarrow> string \<Rightarrow> loader_state \<Rightarrow> loader_error option \<times> loader_state" where
  "SaveTo io path st =
     (if mkdir_fails io then (Some MkdirFailed, st)
      else
        let data = (case config_cfg st of None \<Rightarrow> [] | Some c \<Rightarrow> yaml_Marshal c)
        in if write_fails io then (Some WriteFailed, st)
           else (None, st\<lparr>files := (files st)(path \<mapsto> Document data)\<rparr>))"

definition Load :: "loader_io \<Rightarrow> string \<Rightarrow> loader_state \<Rightarrow> loader_error option \<times> loader_state" where
  "Load io path st = Init io path st"

subsection \<open>Sample inputs\<close>

text \<open>Configurations with clashing ports, and one with every service switched off.\<close>

definition cfg_http_https_clash :: Config where
  "cfg_http_https_clash =
     DefaultConfig\<lparr>HTTPS := (HTTPS DefaultConfig)\<lparr>https_Enabled := True, https_Port := 8080\<rparr>\<rparr>"

definition cfg_http_ss_clash :: Config where
  "cfg_http_ss_clash =
     DefaultConfig\<lparr>Shadowsocks := (Shadowsocks DefaultConfig)\<lparr>ss_Port := 8080\<rparr>\<rparr>"

definition cfg_https_ss_clash :: Config where
  "cfg_https_ss_clash =
     DefaultConfig\<lparr>HTTPS := (HTTPS DefaultConfig)\<lparr>https_Enabled := True, https_Port := 9500\<rparr>\<rparr>"

definition cfg_all_disabled :: Config where
  "cfg_all_disabled =
     DefaultConfig\<lparr>HTTP := (HTTP DefaultConfig)\<lparr>http_Enabled := False\<rparr>,
                   Shadowsocks := (Shadowsocks DefaultConfig)\<lparr>ss_Enabled := False\<rparr>\<rparr>"

text \<open>A host with ufw installed next to a running firewalld.\<close>

definition host_ufw_and_firewalld :: host where
  "host_ufw_and_firewalld =
     \<lparr> lookPath = (\<lambda>name. name \<in> {''ufw'', ''firewall-cmd'', ''iptables''}),
       systemctlIsActive = (\<lambda>name. name = ''firewalld'') \<rparr>"




text \<open>
  The IP services: none reachable; and the first answering with a page, the second
  timing out, the third with an address and a line feed, the fourth with another
  address.
\<close>

definition ip_all_fail :: "string \<Rightarrow> http_outcome" where
  "ip_all_fail = (\<lambda>_. GetFailed)"

definition ip_third_answers :: "string \<Rightarrow> http_outcome" where
  "ip_third_answers =
     (\<lambda>url. if url = ''https://ifconfig.me'' then GotBody ''<html>''
            else if url = ''https://ipinfo.io/ip'' then GotBody (''203.0.113.7'' @ [CHR 0x0A])
            else if url = ''https://api.ipify.org'' then GotBody ''198.51.100.1''
            else GetFailed)"

text \<open>
  The flags as \<open>install\<close> has them by default, and a host on which every call
  succeeds. The other hosts differ from it in one call each.
\<close>

definition default_flags :: install_flags where
  "default_flags =
     \<lparr> installHTTPPort = DefaultHTTPPort, installHTTPUser = DefaultUsername,
       installHTTPPass = [], installHTTPNoAuth = False, installSSEnabled = True,
       installSSPort = DefaultShadowsocksPort, installSSPassword = [],
       installSSMethod = DefaultShadowsocksMethod, installHTTPSEnabled = False,
       installHTTPSPort = DefaultHTTPSPort, installGOSTVersion = DefaultGOSTVersion,
       installSkipFirewall = False \<rparr>"

definition env_ok :: install_env where
  "env_ok =
     \<lparr> euid = 0,
       detectOS_result = Inr ((initialOSInfo ''amd64'')
          \<lparr>OS := ''ubuntu'', Arch := ''x86_64'', GOSTArch := ''amd64'', IsSupported := True\<rparr>),
       ip_responses = ip_third_answers,
       httpPassword_result = Inr ''AAECAwQFBgcICQoL'',
       ssPassword_result = Inr ''DA0ODxAREhMUFRYX'',
       isInstalled = True, existingActive = True, stop_fails = False, backup_fails = False,
       installGOST_fails = False, generateCert_fails = False, generateConfig_fails = False,
       saveWTEConfig_fails = False, createService_fails = False, daemonReload_fails = False,
       enable_fails = False, start_fails = False, openPorts_fails = False,
       saveCredentials_fails = False \<rparr>"

definition env_save_fails :: install_env where
  "env_save_fails = env_ok\<lparr>saveWTEConfig_fails := True\<rparr>"

definition env_start_fails :: install_env where
  "env_start_fails = env_ok\<lparr>start_fails := True, openPorts_fails := True\<rparr>"

definition env_no_network :: install_env where
  "env_no_network = env_ok\<lparr>ip_responses := ip_all_fail\<rparr>"

definition env_advisory_fail :: install_env where
  "env_advisory_fail =
     env_ok\<lparr>ip_responses := ip_all_fail, stop_fails := True, backup_fails := True,
            saveWTEConfig_fails := True, openPorts_fails := True,
            saveCredentials_fails := True\<rparr>"

text \<open>
  A file system with the running executable and, in the temporary directory
  \<open>/tmp/wte-update-1\<close>, a downloaded one; and the faults of four updates: none; a disk
  that refuses the new file and then the restoring rename; one that refuses only the
  new file; one that refuses the change of mode.
\<close>

definition fs_sample :: filesystem where
  "fs_sample =
     [''/usr/local/bin/wte'' \<mapsto> \<lparr>content = [1, 2, 3], perm = 493\<rparr>,
      ''/tmp/wte-update-1/wte'' \<mapsto> \<lparr>content = [4, 5, 6, 7], perm = 420\<rparr>]"

definition no_faults :: swap_faults where
  "no_faults =
     \<lparr> backup_refused = False, copy_fault = NoFault, createPerm = 420,
       restore_after_copy_refused = False, chmod_refused = False,
       remove_new_refused = False, restore_after_chmod_refused = False,
       remove_backup_refused = False, removeAll_kept = (\<lambda>_. False) \<rparr>"

definition faults_copy_and_restore :: swap_faults where
  "faults_copy_and_restore =
     no_faults\<lparr>copy_fault := CreateFault, restore_after_copy_refused := True\<rparr>"

definition faults_copy :: swap_faults where
  "faults_copy = no_faults\<lparr>copy_fault := WriteFault 2\<rparr>"

definition faults_chmod :: swap_faults where
  "faults_chmod = no_faults\<lparr>chmod_refused := True\<rparr>"

text \<open>
  A loader whose \<open>cfg\<close> holds the defaults, with no file written yet; an environment
  without variables, one where \<open>WTE_LOGGING_LEVEL\<close> is \<open>debug\<close>, and one where
  \<open>WTE_HTTP\<close> is \<open>1\<close>.
\<close>

definition st_default :: loader_state where
  "st_default =
     \<lparr> config_cfg = Some DefaultConfig, ConfigPath = [],
       the_viper = \<lparr> v_configType = [], v_override = [], v_config = [],
                     v_defaults = setDefaults \<rparr>,
       files = (\<lambda>_. None) \<rparr>"

definition io_plain :: loader_io where
  "io_plain =
     \<lparr> getenv = (\<lambda>_. None), mkdir_fails = False, write_fails = False,
       found_config = None, other_codec = (\<lambda>_ _. None), parseBool = (\<lambda>_. None), parseInt = (\<lambda>_. None),
       formatInt = (\<lambda>_. []) \<rparr>"

definition io_env_override :: loader_io where
  "io_env_override =
     io_plain\<lparr>getenv := (\<lambda>name. if name = ''WTE_LOGGING_LEVEL'' then Some ''debug'' else None)\<rparr>"

definition io_env_parent :: loader_io where
  "io_env_parent =
     io_plain\<lparr>getenv := (\<lambda>name. if name = ''WTE_HTTP'' then Some ''1'' else None)\<rparr>"

text \<open>
  A configuration that differs from the defaults in every section, a loader that holds
  it, and a process started later: its \<open>cfg\<close> is nil, its \<open>viper\<close> still has a value
  of an earlier file, and it sees the file that the first loader saves.
\<close>

definition cfg_custom :: Config where
  "cfg_custom =
     \<lparr> GOST = (GOST DefaultConfig)\<lparr>Version := ''3.0.0''\<rparr>,
       HTTP = \<lparr> http_Enabled = True, http_Port = 3128,
                http_Auth = \<lparr> auth_Enabled = True, Username = ''alice'',
                              auth_Password = ''s3cret'' \<rparr> \<rparr>,
       HTTPS = (HTTPS DefaultConfig)
                 \<lparr> https_Enabled := True, https_Port := 8443,
                   https_Auth := \<lparr> auth_Enabled = False, Username = [],
                                   auth_Password = [] \<rparr> \<rparr>,
       Shadowsocks = (Shadowsocks DefaultConfig)\<lparr>ss_Enabled := False, ss_Port := 0\<rparr>,
       Firewall = \<lparr> AutoConfigure = False \<rparr>,
       Logging = \<lparr> Level = ''debug'' \<rparr> \<rparr>"

definition st_custom :: loader_state where
  "st_custom = st_default\<lparr>config_cfg := Some cfg_custom\<rparr>"

definition st_later :: loader_state where
  "st_later =
     \<lparr> config_cfg = None, ConfigPath = [],
       the_viper = \<lparr> v_configType = [], v_override = [],
                     v_config = [(''logging.level'', YString ''warn'')], v_defaults = [] \<rparr>,
       files = files (snd (SaveTo io_plain ''/etc/wte/config.yaml'' st_custom)) \<rparr>"

section \<open>Theorems\<close>

subsection \<open>Version comparison\<close>

lemma string_less_lexord:
  "string_less a b \<longleftrightarrow> (a, b) \<in> lexord {(x, y). (of_char x :: nat) < of_char y}"
  by (induction a b rule: string_less.induct) auto

text \<open>
  C1. \<open>CheckForUpdate\<close> strips a leading \<open>v\<close> from the current version and from the
  latest tag and reports an update exactly when the remainders differ and the latest
  is lexicographically (byte-wise) greater than the current one. With current version
  \<open>1.9.0\<close> and latest tag \<open>v1.10.0\<close> it reports no update.
\<close>

theorem CheckForUpdate_lexicographic:
  "CheckForUpdate cur (Inr rel) =
     Inr (rel, TrimPrefix (TagName rel) ''v'' \<noteq> TrimPrefix cur ''v''
               \<and> (TrimPrefix cur ''v'', TrimPrefix (TagName rel) ''v'')
                    \<in> lexord {(x, y). (of_char x :: nat) < of_char y})
   \<and> TrimPrefix ''v1.10.0'' ''v'' = ''1.10.0''
   \<and> TrimPrefix ''1.9.0'' ''v'' = ''1.9.0''
   \<and> \<not> string_less ''1.9.0'' ''1.10.0''
   \<and> CheckForUpdate ''1.9.0'' (Inr (rel\<lparr>TagName := ''v1.10.0''\<rparr>))
       = Inr (rel\<lparr>TagName := ''v1.10.0''\<rparr>, False)"
proof -
  have general: "CheckForUpdate cur (Inr rel) =
     Inr (rel, TrimPrefix (TagName rel) ''v'' \<noteq> TrimPrefix cur ''v''
               \<and> (TrimPrefix cur ''v'', TrimPrefix (TagName rel) ''v'')
                    \<in> lexord {(x, y). (of_char x :: nat) < of_char y})"
    by (simp add: CheckForUpdate_def Let_def string_less_lexord)
  have latest: "TrimPrefix ''v1.10.0'' ''v'' = ''1.10.0''"
    by (simp add: TrimPrefix_def HasPrefix_def)
  have current: "TrimPrefix ''1.9.0'' ''v'' = ''1.9.0''"
    by (simp add: TrimPrefix_def HasPrefix_def)
  have cmp: "\<not> string_less ''1.9.0'' ''1.10.0''"
    by simp
  have "CheckForUpdate ''1.9.0'' (Inr (rel\<lparr>TagName := ''v1.10.0''\<rparr>))
       = Inr (rel\<lparr>TagName := ''v1.10.0''\<rparr>, False)"
    using latest current cmp by (simp add: CheckForUpdate_def Let_def)
  with general latest current cmp show ?thesis by blast
qed

subsection \<open>Configuration validation\<close>

text \<open>
  C3. \<open>Validate\<close> returns no error exactly when at least one service is enabled and no
  two enabled services have the same port; it fails with \<open>NoServiceEnabled\<close> exactly
  when none is enabled; services are taken in the order HTTP, HTTPS, Shadowsocks, and
  a later service whose port an earlier one has taken fails with an error naming the
  earlier one.
\<close>

theorem Validate_ports:
  "(Validate conf = None \<longleftrightarrow>
      (http_Enabled (HTTP conf) \<or> https_Enabled (HTTPS conf) \<or> ss_Enabled (Shadowsocks conf))
      \<and> \<not> (http_Enabled (HTTP conf) \<and> https_Enabled (HTTPS conf)
             \<and> http_Port (HTTP conf) = https_Port (HTTPS conf))
      \<and> \<not> (http_Enabled (HTTP conf) \<and> ss_Enabled (Shadowsocks conf)
             \<and> http_Port (HTTP conf) = ss_Port (Shadowsocks conf))
      \<and> \<not> (https_Enabled (HTTPS conf) \<and> ss_Enabled (Shadowsocks conf)
             \<and> https_Port (HTTPS conf) = ss_Port (Shadowsocks conf)))
   \<and> (Validate conf = Some NoServiceEnabled \<longleftrightarrow>
        \<not> http_Enabled (HTTP conf) \<and> \<not> https_Enabled (HTTPS conf)
        \<and> \<not> ss_Enabled (Shadowsocks conf))
   \<and> (http_Enabled (HTTP conf) \<and> https_Enabled (HTTPS conf)
        \<and> http_Port (HTTP conf) = https_Port (HTTPS conf)
      \<longrightarrow> Validate conf = Some (PortConflict (https_Port (HTTPS conf)) ''HTTPS'' ''HTTP''))
   \<and> (http_Enabled (HTTP conf) \<and> ss_Enabled (Shadowsocks conf)
        \<and> http_Port (HTTP conf) = ss_Port (Shadowsocks conf)
        \<and> \<not> (https_Enabled (HTTPS conf) \<and> https_Port (HTTPS conf) = http_Port (HTTP conf))
      \<longrightarrow> Validate conf
            = Some (PortConflict (ss_Port (Shadowsocks conf)) ''Shadowsocks'' ''HTTP''))
   \<and> (https_Enabled (HTTPS conf) \<and> ss_Enabled (Shadowsocks conf)
        \<and> https_Port (HTTPS conf) = ss_Port (Shadowsocks conf)
        \<and> \<not> (http_Enabled (HTTP conf) \<and> http_Port (HTTP conf) = https_Port (HTTPS conf))
      \<longrightarrow> Validate conf
            = Some (PortConflict (ss_Port (Shadowsocks conf)) ''Shadowsocks'' ''HTTPS''))"
  by (auto simp: Validate_def Let_def split: if_splits)

lemmas sample_cfg_defs =
  cfg_http_https_clash_def cfg_http_ss_clash_def cfg_https_ss_clash_def cfg_all_disabled_def
  DefaultConfig_def DefaultHTTPPort_def DefaultHTTPSPort_def DefaultShadowsocksPort_def

theorem Validate_ports_witness:
  "Validate DefaultConfig = None
   \<and> Validate cfg_all_disabled = Some NoServiceEnabled
   \<and> Validate cfg_http_https_clash = Some (PortConflict 8080 ''HTTPS'' ''HTTP'')
   \<and> Validate cfg_http_ss_clash = Some (PortConflict 8080 ''Shadowsocks'' ''HTTP'')
   \<and> Validate cfg_https_ss_clash = Some (PortConflict 9500 ''Shadowsocks'' ''HTTPS'')"
proof -
  have valid: "Validate DefaultConfig = None"
    using Validate_ports [of DefaultConfig] by (simp add: sample_cfg_defs)
  have none: "Validate cfg_all_disabled = Some NoServiceEnabled"
    using Validate_ports [of cfg_all_disabled] by (simp add: sample_cfg_defs)
  have c1: "Validate cfg_http_https_clash = Some (PortConflict 8080 ''HTTPS'' ''HTTP'')"
    using Validate_ports [of cfg_http_https_clash] by (simp add: sample_cfg_defs)
  have c2: "Validate cfg_http_ss_clash = Some (PortConflict 8080 ''Shadowsocks'' ''HTTP'')"
    using Validate_ports [of cfg_http_ss_clash] by (simp add: sample_cfg_defs)
  have c3: "Validate cfg_https_ss_clash = Some (PortConflict 9500 ''Shadowsocks'' ''HTTPS'')"
    using Validate_ports [of cfg_https_ss_clash] by (simp add: sample_cfg_defs)
  from valid none c1 c2 c3 show ?thesis by simp
qed

subsection \<open>Firewall detection\<close>

text \<open>
  C4. Firewall detection selects ufw whenever the \<open>ufw\<close> command exists; otherwise
  firewalld when \<open>firewall-cmd\<close> exists and the \<open>firewalld\<close> service is active;
  otherwise iptables when the \<open>iptables\<close> command exists; otherwise none. A host
  with both ufw and an active firewalld gets ufw.
\<close>

theorem detectFirewall_precedence:
  "(GetType (NewFirewallManager h) = Some FirewallUFW \<longleftrightarrow> commandExists h ''ufw'')
   \<and> (GetType (NewFirewallManager h) = Some FirewallFirewalld \<longleftrightarrow>
        \<not> commandExists h ''ufw''
        \<and> commandExists h ''firewall-cmd'' \<and> isServiceActive h ''firewalld'')
   \<and> (GetType (NewFirewallManager h) = Some FirewallIPTables \<longleftrightarrow>
        \<not> commandExists h ''ufw''
        \<and> \<not> (commandExists h ''firewall-cmd'' \<and> isServiceActive h ''firewalld'')
        \<and> commandExists h ''iptables'')
   \<and> (GetType (NewFirewallManager h) = Some FirewallNone \<longleftrightarrow>
        \<not> commandExists h ''ufw''
        \<and> \<not> (commandExists h ''firewall-cmd'' \<and> isServiceActive h ''firewalld'')
        \<and> \<not> commandExists h ''iptables'')
   \<and> (commandExists h ''ufw'' \<and> commandExists h ''firewall-cmd''
        \<and> isServiceActive h ''firewalld''
      \<longrightarrow> GetType (NewFirewallManager h) = Some FirewallUFW)"
  by (simp add: GetType_def NewFirewallManager_def detectFirewall_def)

theorem detectFirewall_precedence_witness:
  "commandExists host_ufw_and_firewalld ''ufw''
   \<and> commandExists host_ufw_and_firewalld ''firewall-cmd''
   \<and> isServiceActive host_ufw_and_firewalld ''firewalld''
   \<and> GetType (NewFirewallManager host_ufw_and_firewalld) = Some FirewallUFW"
  using detectFirewall_precedence [of host_ufw_and_firewalld]
  by (simp add: host_ufw_and_firewalld_def commandExists_def isServiceActive_def)

subsection \<open>Architecture detection\<close>

lemma archSupported_set: "{arch. archSupported arch} = {''amd64'', ''arm64'', ''arm''}"
  by (auto simp: archSupported_def detectArch_def)

text \<open>
  C7, as stated, speaks of four supported architecture values. The values on which
  \<open>detectArch\<close> succeeds are three.
\<close>

theorem detectArch_supported_count: "card {arch. archSupported arch} = 3"
  by (simp add: archSupported_set)

text \<open>
  C7, amended. \<open>detectArch\<close> succeeds on exactly three values of the runtime
  architecture: it maps \<open>amd64\<close> to \<open>amd64\<close>, \<open>arm64\<close> to \<open>arm64\<close> and \<open>arm\<close> to
  \<open>armv7\<close>. On any other value it fails with the unsupported-architecture error
  naming the value, and so does \<open>DetectOS\<close>, whatever the release files hold.
\<close>

theorem detectArch_table:
  "detectArch info ''amd64'' = Inr (info\<lparr>Arch := ''x86_64'', GOSTArch := ''amd64''\<rparr>)
   \<and> detectArch info ''arm64'' = Inr (info\<lparr>Arch := ''aarch64'', GOSTArch := ''arm64''\<rparr>)
   \<and> detectArch info ''arm'' = Inr (info\<lparr>Arch := ''armv7l'', GOSTArch := ''armv7''\<rparr>)
   \<and> {a. archSupported a} = {''amd64'', ''arm64'', ''arm''}
   \<and> (arch \<notin> {''amd64'', ''arm64'', ''arm''} \<longrightarrow>
        detectArch info arch = Inl (UnsupportedArchitecture arch)
        \<and> DetectOS arch readOSRelease readRedHatRelease = Inl (UnsupportedArchitecture arch))"
  by (simp add: archSupported_set) (simp add: detectArch_def DetectOS_def)

theorem detectArch_table_witness:
  "''riscv64'' \<notin> {''amd64'', ''arm64'', ''arm''}
   \<and> detectArch (initialOSInfo ''riscv64'') ''riscv64''
       = Inl (UnsupportedArchitecture ''riscv64'')
   \<and> DetectOS ''riscv64'' (\<lambda>i. (None, i)) (\<lambda>i. (None, i))
       = Inl (UnsupportedArchitecture ''riscv64'')"
  using detectArch_table
    [of "initialOSInfo ''riscv64''" "''riscv64''" "\<lambda>i. (None, i)" "\<lambda>i. (None, i)"]
  by simp

subsection \<open>Password generation\<close>






text \<open>Base64 without its padding has \<open>\<lceil>4n/3\<rceil>\<close> characters for \<open>n\<close> bytes.\<close>

lemma encodeStd_length: "length encodeStd = 64"
  by (simp add: encodeStd_def)

lemma enc_not_pad: "k < 64 \<Longrightarrow> enc k \<noteq> CHR ''=''"
proof -
  assume "k < 64"
  then have "enc k \<in> set encodeStd"
    unfolding enc_def by (simp add: encodeStd_length)
  moreover have "CHR ''='' \<notin> set encodeStd"
    by (simp add: encodeStd_def)
  ultimately show ?thesis by auto
qed

lemma byte_bound: "unat (a :: byte) < 256"
  using unsigned_less [of a, where ?'a = nat] by simp

lemma unpadded_length:
  "length (ReplaceAll_char (EncodeToString bs) (CHR ''='')) = (4 * length bs + 2) div 3"
proof (induction bs rule: EncodeToString.induct)
  case (1 a b c rest)
  have "unat a div 4 < 64" "unat a mod 4 * 16 + unat b div 16 < 64"
       "unat b mod 16 * 4 + unat c div 64 < 64" "unat c mod 64 < 64"
    using byte_bound[of a] byte_bound[of b] byte_bound[of c] by auto
  with 1 show ?case by (simp add: ReplaceAll_char_def enc_not_pad)
next
  case (2 a b)
  have "unat a div 4 < 64" "unat a mod 4 * 16 + unat b div 16 < 64" "unat b mod 16 * 4 < 64"
    using byte_bound[of a] byte_bound[of b] by auto
  then show ?case by (simp add: ReplaceAll_char_def enc_not_pad)
next
  case (3 a)
  have "unat a div 4 < 64" "unat a mod 4 * 16 < 64"
    using byte_bound[of a] by auto
  then show ?case by (simp add: ReplaceAll_char_def enc_not_pad)
next
  case 4
  show ?case by (simp add: ReplaceAll_char_def)
qed



















subsection \<open>Public IP detection\<close>

lemma GetPublicIP_loop_step:
  "GetPublicIP_loop get (a # svcs) =
     (if accepted (get a) then (case get a of GotBody b \<Rightarrow> Inr (TrimSpace b) | _ \<Rightarrow> Inl NoPublicIP)
      else GetPublicIP_loop get svcs)"
  by (cases "get a") (auto simp: accepted_def Let_def)

lemma GetPublicIP_loop_Inr:
  "GetPublicIP_loop get svcs = Inr ip \<longleftrightarrow>
     (\<exists>i < length svcs.
        (\<exists>body. get (svcs ! i) = GotBody body \<and> ip = TrimSpace body \<and> ipRegex_MatchString ip)
        \<and> (\<forall>j < i. \<not> accepted (get (svcs ! j))))"
proof (induction svcs)
  case Nil
  then show ?case by simp
next
  case (Cons a svcs)
  show ?case
  proof (cases "accepted (get a)")
    case True
    then obtain b where b: "get a = GotBody b" "ipRegex_MatchString (TrimSpace b)"
      by (auto simp: accepted_def split: http_outcome.splits)
    have "GetPublicIP_loop get (a # svcs) = Inr (TrimSpace b)"
      using b by (simp add: Let_def)
    moreover have "(\<exists>i < length (a # svcs).
        (\<exists>body. get ((a # svcs) ! i) = GotBody body \<and> ip = TrimSpace body \<and> ipRegex_MatchString ip)
        \<and> (\<forall>j < i. \<not> accepted (get ((a # svcs) ! j)))) \<longleftrightarrow> ip = TrimSpace b"
    proof
      assume "\<exists>i < length (a # svcs).
        (\<exists>body. get ((a # svcs) ! i) = GotBody body \<and> ip = TrimSpace body \<and> ipRegex_MatchString ip)
        \<and> (\<forall>j < i. \<not> accepted (get ((a # svcs) ! j)))"
      then obtain i where i: "(\<exists>body. get ((a # svcs) ! i) = GotBody body \<and> ip = TrimSpace body \<and> ipRegex_MatchString ip)"
        "\<forall>j < i. \<not> accepted (get ((a # svcs) ! j))" by blast
      from i(2) True have "i = 0" by (cases i) auto
      with i(1) b show "ip = TrimSpace b" by simp
    next
      assume "ip = TrimSpace b"
      with b show "\<exists>i < length (a # svcs).
        (\<exists>body. get ((a # svcs) ! i) = GotBody body \<and> ip = TrimSpace body \<and> ipRegex_MatchString ip)
        \<and> (\<forall>j < i. \<not> accepted (get ((a # svcs) ! j)))"
        by (intro exI[of _ 0]) simp
    qed
    ultimately show ?thesis by auto
  next
    case False
    then have step: "GetPublicIP_loop get (a # svcs) = GetPublicIP_loop get svcs"
      by (subst GetPublicIP_loop_step) simp
    have "(\<exists>i < length (a # svcs).
        (\<exists>body. get ((a # svcs) ! i) = GotBody body \<and> ip = TrimSpace body \<and> ipRegex_MatchString ip)
        \<and> (\<forall>j < i. \<not> accepted (get ((a # svcs) ! j)))) \<longleftrightarrow>
       (\<exists>i < length svcs.
        (\<exists>body. get (svcs ! i) = GotBody body \<and> ip = TrimSpace body \<and> ipRegex_MatchString ip)
        \<and> (\<forall>j < i. \<not> accepted (get (svcs ! j))))" (is "?L \<longleftrightarrow> ?R")
    proof
      assume ?L
      then obtain i where i: "i < length (a # svcs)"
        "(\<exists>body. get ((a # svcs) ! i) = GotBody body \<and> ip = TrimSpace body \<and> ipRegex_MatchString ip)"
        "\<forall>j < i. \<not> accepted (get ((a # svcs) ! j))" by blast
      have "i \<noteq> 0"
      proof
        assume "i = 0"
        with i(2) False show False by (auto simp: accepted_def)
      qed
      then obtain k where k: "i = Suc k" by (cases i) auto
      from i(3) k have "\<forall>j < k. \<not> accepted (get (svcs ! j))" by auto
      with i(1,2) k show ?R by auto
    next
      assume ?R
      then obtain k where k: "k < length svcs"
        "(\<exists>body. get (svcs ! k) = GotBody body \<and> ip = TrimSpace body \<and> ipRegex_MatchString ip)"
        "\<forall>j < k. \<not> accepted (get (svcs ! j))" by blast
      have "\<forall>j < Suc k. \<not> accepted (get ((a # svcs) ! j))"
        using k(3) False by (auto simp: less_Suc_eq_0_disj)
      with k(1,2) show ?L by (intro exI[of _ "Suc k"]) simp
    qed
    with step Cons.IH show ?thesis by simp
  qed
qed

lemma GetPublicIP_loop_Inl:
  "GetPublicIP_loop get svcs = Inl NoPublicIP \<longleftrightarrow> (\<forall>s \<in> set svcs. \<not> accepted (get s))"
  by (induction svcs) (auto simp: accepted_def Let_def split: http_outcome.splits)


text \<open>The pattern accepts exactly four dot-separated groups of one to three digits.\<close>

lemma dot_not_digit: "\<not> isDigit (CHR ''.'')"
  by (simp add: isDigit_def)

lemma matchOctets_0: "matchOctets 0 s \<longleftrightarrow> octet s"
proof
  assume m: "matchOctets 0 s"
  then have "dropWhile isDigit s = []" by (simp add: Let_def)
  then have all: "\<forall>c \<in> set s. isDigit c" by (simp add: dropWhile_eq_Nil_conv)
  then have "takeWhile isDigit s = s" by (simp add: takeWhile_eq_all_conv)
  with m all show "octet s" by (simp add: Let_def octet_def)
next
  assume o: "octet s"
  then have all: "\<forall>c \<in> set s. isDigit c" by (simp add: octet_def)
  then have tk: "takeWhile isDigit s = s" and dk: "dropWhile isDigit s = []"
    by (simp_all add: takeWhile_eq_all_conv dropWhile_eq_Nil_conv)
  show "matchOctets 0 s"
    unfolding matchOctets.simps Let_def tk dk using o by (simp add: octet_def)
qed

lemma matchOctets_Suc:
  "matchOctets (Suc n) s \<longleftrightarrow> (\<exists>a r. s = a @ CHR ''.'' # r \<and> octet a \<and> matchOctets n r)"
proof
  assume m: "matchOctets (Suc n) s"
  then obtain r where r: "dropWhile isDigit s = CHR ''.'' # r" "matchOctets n r"
    and len: "1 \<le> length (takeWhile isDigit s)" "length (takeWhile isDigit s) \<le> 3"
    by (auto simp: Let_def split: list.splits)
  have "s = takeWhile isDigit s @ CHR ''.'' # r"
    using takeWhile_dropWhile_id[of isDigit s] r(1) by simp
  moreover have "octet (takeWhile isDigit s)"
    using len by (auto simp: octet_def dest: set_takeWhileD)
  ultimately show "\<exists>a r. s = a @ CHR ''.'' # r \<and> octet a \<and> matchOctets n r"
    using r(2) by blast
next
  assume "\<exists>a r. s = a @ CHR ''.'' # r \<and> octet a \<and> matchOctets n r"
  then obtain a r where s: "s = a @ CHR ''.'' # r" and o: "octet a" and m: "matchOctets n r"
    by blast
  from o have all: "\<forall>c \<in> set a. isDigit c" by (simp add: octet_def)
  have tk: "takeWhile isDigit s = a" and dk: "dropWhile isDigit s = CHR ''.'' # r"
    using all dot_not_digit by (simp_all add: s takeWhile_append2 dropWhile_append2)
  show "matchOctets (Suc n) s"
    unfolding matchOctets.simps Let_def tk dk using o m by (simp add: octet_def)
qed

lemma ipRegex_language:
  "ipRegex_MatchString s \<longleftrightarrow>
     (\<exists>a b c d. s = a @ ''.'' @ b @ ''.'' @ c @ ''.'' @ d
                \<and> octet a \<and> octet b \<and> octet c \<and> octet d)"
proof -
  have "ipRegex_MatchString s \<longleftrightarrow>
        (\<exists>a r1. s = a @ CHR ''.'' # r1 \<and> octet a \<and>
          (\<exists>b r2. r1 = b @ CHR ''.'' # r2 \<and> octet b \<and>
            (\<exists>c d. r2 = c @ CHR ''.'' # d \<and> octet c \<and> octet d)))"
    by (simp add: ipRegex_MatchString_def numeral_3_eq_3 matchOctets_Suc matchOctets_0
             del: matchOctets.simps)
  also have "\<dots> \<longleftrightarrow> (\<exists>a b c d. s = a @ ''.'' @ b @ ''.'' @ c @ ''.'' @ d
                \<and> octet a \<and> octet b \<and> octet c \<and> octet d)"
    by (simp; blast)
  finally show ?thesis .
qed


text \<open>
  C8, as stated, has the probe never fail and hand out the placeholder itself. When no
  service gives an acceptable answer, \<open>GetPublicIP\<close> returns an error.
\<close>

theorem GetPublicIP_fails: "GetPublicIP ip_all_fail = Inl NoPublicIP"
  by (simp add: GetPublicIP_def IPServices_def ip_all_fail_def)

text \<open>
  C8, amended. \<open>GetPublicIP\<close> asks the five services in their fixed order and returns
  the trimmed body of the first whose body, trimmed of white space, matches the
  dotted-quad pattern (four groups of one to three digits, separated by dots); when no
  service gives such a body it returns an error. \<open>runInstall\<close> turns that error into a
  warning, goes on with the placeholder \<open>YOUR_SERVER_IP\<close>, and runs the steps that
  follow.
\<close>

theorem GetPublicIP_first_match:
  "IPServices = [''https://ifconfig.me'', ''https://icanhazip.com'', ''https://ipinfo.io/ip'',
                 ''https://api.ipify.org'', ''https://ipecho.net/plain'']
   \<and> (GetPublicIP get = Inr ip \<longleftrightarrow>
        (\<exists>i < 5.
           (\<exists>body. get (IPServices ! i) = GotBody body \<and> ip = TrimSpace body
                    \<and> ipRegex_MatchString ip)
           \<and> (\<forall>j < i. \<not> accepted (get (IPServices ! j)))))
   \<and> (GetPublicIP get = Inl NoPublicIP \<longleftrightarrow> (\<forall>s \<in> set IPServices. \<not> accepted (get s)))
   \<and> (ipRegex_MatchString ip \<longleftrightarrow>
        (\<exists>a b c d. ip = a @ ''.'' @ b @ ''.'' @ c @ ''.'' @ d
                   \<and> octet a \<and> octet b \<and> octet c \<and> octet d))
   \<and> result (install_publicIP env s) = result s
   \<and> publicIP (install_publicIP env s) =
       (case GetPublicIP (ip_responses env) of Inr ip' \<Rightarrow> ip' | Inl _ \<Rightarrow> ''YOUR_SERVER_IP'')
   \<and> events (install_publicIP env s) = events s @
       (case GetPublicIP (ip_responses env) of
          Inr _ \<Rightarrow> [Called OpGetPublicIP True]
        | Inl _ \<Rightarrow> [Called OpGetPublicIP False, Warning OpGetPublicIP])
   \<and> (result s = None \<longrightarrow>
        run_steps (install_publicIP env # rest) s = run_steps rest (install_publicIP env s))"
proof -
  have len: "length IPServices = 5" by (simp add: IPServices_def)
  have a: "GetPublicIP get = Inr ip \<longleftrightarrow>
        (\<exists>i < 5.
           (\<exists>body. get (IPServices ! i) = GotBody body \<and> ip = TrimSpace body
                    \<and> ipRegex_MatchString ip)
           \<and> (\<forall>j < i. \<not> accepted (get (IPServices ! j))))"
    using GetPublicIP_loop_Inr[of get IPServices ip] by (simp only: GetPublicIP_def len)
  have b: "GetPublicIP get = Inl NoPublicIP \<longleftrightarrow> (\<forall>s \<in> set IPServices. \<not> accepted (get s))"
    by (simp only: GetPublicIP_def GetPublicIP_loop_Inl)
  have c: "result (install_publicIP env s) = result s"
    by (simp add: install_publicIP_def advisory_def split: sum.splits)
  have d: "publicIP (install_publicIP env s) =
       (case GetPublicIP (ip_responses env) of Inr ip' \<Rightarrow> ip' | Inl _ \<Rightarrow> ''YOUR_SERVER_IP'')"
    by (simp add: install_publicIP_def advisory_def split: sum.splits)
  have e: "events (install_publicIP env s) = events s @
       (case GetPublicIP (ip_responses env) of
          Inr _ \<Rightarrow> [Called OpGetPublicIP True]
        | Inl _ \<Rightarrow> [Called OpGetPublicIP False, Warning OpGetPublicIP])"
    by (simp add: install_publicIP_def advisory_def split: sum.splits)
  have f: "result s = None \<longrightarrow>
        run_steps (install_publicIP env # rest) s = run_steps rest (install_publicIP env s)"
    by (simp add: run_steps_def)
  from a b c d e f ipRegex_language[of ip] show ?thesis
    by (simp only: IPServices_def simp_thms)
qed

theorem GetPublicIP_first_match_witness:
  "GetPublicIP ip_third_answers = Inr ''203.0.113.7''
   \<and> ipRegex_MatchString ''203.0.113.7''
   \<and> result initial_state = None
   \<and> publicIP (install_publicIP env_no_network initial_state) = ''YOUR_SERVER_IP''
   \<and> events (install_publicIP env_no_network initial_state)
       = [Called OpGetPublicIP False, Warning OpGetPublicIP]
   \<and> run_steps [install_publicIP env_no_network, install_prepareConfig default_flags]
        initial_state
       = install_prepareConfig default_flags (install_publicIP env_no_network initial_state)"
proof -
  note T = GetPublicIP_first_match
  have m: "ipRegex_MatchString ''203.0.113.7''"
  proof -
    have "octet ''203''" "octet ''0''" "octet ''113''" "octet ''7''"
      by (simp_all add: octet_def isDigit_def)
    then have "\<exists>a b c d. ''203.0.113.7'' = a @ ''.'' @ b @ ''.'' @ c @ ''.'' @ d
                   \<and> octet a \<and> octet b \<and> octet c \<and> octet d"
      by (intro exI[of _ "''203''"] exI[of _ "''0''"] exI[of _ "''113''"] exI[of _ "''7''"])
         simp
    with T[of _ "''203.0.113.7''"] show ?thesis by blast
  qed
  have tr: "TrimSpace (''203.0.113.7'' @ [CHR 0x0A]) = ''203.0.113.7''"
    by code_simp
  have first: "\<not> accepted (ip_third_answers (IPServices ! 0))"
              "\<not> accepted (ip_third_answers (IPServices ! 1))"
    by code_simp+
  have third: "ip_third_answers (IPServices ! 2) = GotBody (''203.0.113.7'' @ [CHR 0x0A])"
    by (simp add: ip_third_answers_def IPServices_def)
  have "\<exists>i < 5.
           (\<exists>body. ip_third_answers (IPServices ! i) = GotBody body
                    \<and> ''203.0.113.7'' = TrimSpace body \<and> ipRegex_MatchString ''203.0.113.7'')
           \<and> (\<forall>j < i. \<not> accepted (ip_third_answers (IPServices ! j)))"
  proof (intro exI[of _ 2] conjI)
    show "(2::nat) < 5" by simp
    show "\<exists>body. ip_third_answers (IPServices ! 2) = GotBody body
                    \<and> ''203.0.113.7'' = TrimSpace body \<and> ipRegex_MatchString ''203.0.113.7''"
      using third tr m by simp
    show "\<forall>j < 2. \<not> accepted (ip_third_answers (IPServices ! j))"
      using first by (auto simp: less_Suc_eq numeral_2_eq_2)
  qed
  with T[of ip_third_answers "''203.0.113.7''"]
  have g: "GetPublicIP ip_third_answers = Inr ''203.0.113.7''" by blast
  have none: "GetPublicIP (ip_responses env_no_network) = Inl NoPublicIP"
    using T[of ip_all_fail]
    by (simp add: env_no_network_def ip_all_fail_def accepted_def)
  have r0: "result initial_state = None" by (simp add: initial_state_def)
  have p: "publicIP (install_publicIP env_no_network initial_state) = ''YOUR_SERVER_IP''"
    using T[of _ _ env_no_network initial_state] none by simp
  have ev: "events (install_publicIP env_no_network initial_state)
       = [Called OpGetPublicIP False, Warning OpGetPublicIP]"
    using T[of _ _ env_no_network initial_state] none by (simp add: initial_state_def)
  have go: "run_steps [install_publicIP env_no_network, install_prepareConfig default_flags]
        initial_state
       = install_prepareConfig default_flags (install_publicIP env_no_network initial_state)"
    using T[of _ _ env_no_network initial_state "[install_prepareConfig default_flags]"] r0
    by (simp add: run_steps_def)
  from g m r0 p ev go show ?thesis by simp
qed

subsection \<open>The install sequence\<close>

lemma ops_disjoint: "fatal_ops \<inter> advisory_ops = {}"
  by (simp add: fatal_ops_def advisory_ops_def)

lemma error_op_fatal: "error_op e \<in> fatal_ops"
  by (cases e) (simp_all add: fatal_ops_def)

lemma consistent_fatal:
  assumes "consistent env s" "result s = None" "opn \<in> fatal_ops"
    and "\<forall>e. err = Some e \<longrightarrow> error_op e = opn \<and> caused env (cfg s) e"
  shows "consistent env (fatal opn err s)"
  using assms
  by (cases err) (auto simp: consistent_def fatal_def)

lemma consistent_advisory:
  assumes "consistent env s" "result s = None" "opn \<in> advisory_ops"
  shows "consistent env (advisory opn b s)"
  using assms
  by (auto simp: consistent_def advisory_def)

lemma consistent_cfg [simp]:
  "result s = None \<Longrightarrow> consistent env (s\<lparr>cfg := c\<rparr>) = consistent env s"
  by (simp add: consistent_def)

lemma consistent_publicIP [simp]: "consistent env (s\<lparr>publicIP := p\<rparr>) = consistent env s"
  by (simp add: consistent_def)

lemma result_fatal_None [simp]: "result (fatal opn None s) = result s"
  by (simp add: fatal_def)

lemma result_advisory [simp]: "result (advisory opn b s) = result s"
  by (simp add: advisory_def)

lemma keeps_failing:
  assumes "opn \<in> fatal_ops" "error_op e = opn" "b \<Longrightarrow> caused env c e" "\<And>c c'. caused env c e = caused env c' e"
  shows "keeps env (fatal opn (failing b e))"
  unfolding keeps_def
proof (intro allI impI, elim conjE)
  fix s assume s: "consistent env s" "result s = None"
  have "\<forall>e'. failing b e = Some e' \<longrightarrow> error_op e' = opn \<and> caused env (cfg s) e'"
    using assms(2,3) assms(4)[of c "cfg s"] by (auto simp: failing_def split: if_splits)
  with s assms(1) show "consistent env (fatal opn (failing b e) s)"
    by (rule consistent_fatal)
qed

lemma keeps_advisory: "opn \<in> advisory_ops \<Longrightarrow> keeps env (advisory opn b)"
  unfolding keeps_def by (auto intro!: consistent_advisory)

lemma keeps_checkRoot: "keeps env (install_checkRoot env)"
  unfolding install_checkRoot_def
  by (rule keeps_failing) (simp_all add: fatal_ops_def)

lemma keeps_detectOS: "keeps env (install_detectOS env)"
  unfolding keeps_def install_detectOS_def
  by (auto split: sum.splits intro!: consistent_fatal simp: fatal_ops_def)

lemma keeps_publicIP: "keeps env (install_publicIP env)"
  unfolding keeps_def install_publicIP_def
  by (auto split: sum.splits intro!: consistent_advisory simp: advisory_ops_def)

lemma keeps_prepareConfig: "keeps env (install_prepareConfig fl)"
  unfolding keeps_def install_prepareConfig_def by simp

lemma keeps_httpPassword: "keeps env (install_httpPassword env fl)"
  unfolding keeps_def install_httpPassword_def setHTTPPassword_def
  by (auto split: sum.splits intro!: consistent_fatal simp: fatal_ops_def)

lemma keeps_ssPassword: "keeps env (install_ssPassword env fl)"
  unfolding keeps_def install_ssPassword_def setSSPassword_def
  by (auto split: sum.splits intro!: consistent_fatal simp: fatal_ops_def)

lemma keeps_httpsAuth: "keeps env install_httpsAuth"
  unfolding keeps_def install_httpsAuth_def by simp

lemma keeps_existing: "keeps env (install_existing env)"
  unfolding keeps_def install_existing_def
  by (auto intro!: consistent_advisory simp: advisory_ops_def)

lemma keeps_gost: "keeps env (install_gost env)"
  unfolding install_gost_def
  by (rule keeps_failing) (simp_all add: fatal_ops_def)

lemma keeps_certificate: "keeps env (install_certificate env)"
proof -
  have k: "keeps env (fatal OpGenerateCert (failing (generateCert_fails env) CertificateFailed))"
    by (rule keeps_failing) (simp_all add: fatal_ops_def)
  show ?thesis
    using k unfolding keeps_def install_certificate_def by simp
qed

lemma keeps_validate: "keeps env install_validate"
  unfolding keeps_def install_validate_def
  by (auto intro!: consistent_fatal simp: fatal_ops_def)

lemma keeps_generate: "keeps env (install_generate env)"
  unfolding install_generate_def
  by (rule keeps_failing) (simp_all add: fatal_ops_def)

lemma keeps_saveConfig: "keeps env (install_saveConfig env)"
  unfolding install_saveConfig_def
  by (rule keeps_advisory) (simp add: advisory_ops_def)

lemma keeps_createService: "keeps env (install_createService env)"
  unfolding install_createService_def
  by (rule keeps_failing) (simp_all add: fatal_ops_def)

lemma keeps_daemonReload: "keeps env (install_daemonReload env)"
  unfolding install_daemonReload_def
  by (rule keeps_failing) (simp_all add: fatal_ops_def)

lemma keeps_enable: "keeps env (install_enable env)"
  unfolding install_enable_def
  by (rule keeps_failing) (simp_all add: fatal_ops_def)

lemma keeps_start: "keeps env (install_start env)"
  unfolding install_start_def
  by (rule keeps_failing) (simp_all add: fatal_ops_def)

lemma keeps_status: "keeps env install_status"
  unfolding install_status_def
  by (rule keeps_advisory) (simp add: advisory_ops_def)

lemma keeps_firewall: "keeps env (install_firewall env)"
proof -
  have k: "keeps env (advisory OpOpenPorts (openPorts_fails env))"
    by (rule keeps_advisory) (simp add: advisory_ops_def)
  show ?thesis
    using k unfolding keeps_def install_firewall_def by simp
qed

lemma keeps_saveCredentials: "keeps env (install_saveCredentials env)"
  unfolding install_saveCredentials_def
  by (rule keeps_advisory) (simp add: advisory_ops_def)

lemma keeps_steps: "\<forall>step \<in> set (install_steps env fl). keeps env step"
  unfolding install_steps_def
  by (simp add: keeps_checkRoot keeps_detectOS keeps_publicIP keeps_prepareConfig
        keeps_httpPassword keeps_ssPassword keeps_httpsAuth keeps_existing keeps_gost
        keeps_certificate keeps_validate keeps_generate keeps_saveConfig
        keeps_createService keeps_daemonReload keeps_enable keeps_start keeps_status
        keeps_firewall keeps_saveCredentials)

lemma run_steps_consistent:
  "\<forall>step \<in> set steps. keeps env step \<Longrightarrow> consistent env s
     \<Longrightarrow> consistent env (run_steps steps s)"
  by (induction steps arbitrary: s) (auto simp: run_steps_def keeps_def)

lemma consistent_initial: "consistent env initial_state"
  by (simp add: consistent_def initial_state_def)

lemma runInstall_consistent: "consistent env (runInstall env fl)"
  unfolding runInstall_def
  by (rule run_steps_consistent[OF keeps_steps consistent_initial])


lemma run_steps_snoc:
  "run_steps (steps @ [step]) s =
     (if result (run_steps steps s) = None then step (run_steps steps s) else run_steps steps s)"
  by (simp add: run_steps_def)

lemma install_steps_snoc:
  "install_steps env fl = butlast (install_steps env fl) @ [install_saveCredentials env]"
  by (simp add: install_steps_def)

lemma runInstall_completes:
  assumes "result (runInstall env fl) = None"
  shows "Called OpSaveCredentials (\<not> saveCredentials_fails env) \<in> set (events (runInstall env fl))"
proof -
  let ?s = "run_steps (butlast (install_steps env fl)) initial_state"
  have r: "runInstall env fl =
        (if result ?s = None then install_saveCredentials env ?s else ?s)"
    unfolding runInstall_def by (subst install_steps_snoc) (rule run_steps_snoc)
  with assms have "result ?s = None" by (auto split: if_splits)
  with r have "runInstall env fl = install_saveCredentials env ?s" by simp
  then show ?thesis by (simp add: install_saveCredentials_def advisory_def)
qed


text \<open>
  C2, as stated, makes every step fatal but the firewall, the credentials file and the
  public IP, and names the saving of the tool's own configuration as fatal. On a host
  where only that saving fails, \<open>runInstall\<close> warns, runs every later step and returns
  no error.
\<close>

theorem runInstall_save_config_not_fatal:
  "result (runInstall env_save_fails default_flags) = None
   \<and> events (runInstall env_save_fails default_flags) =
       [Called OpCheckRoot True, Called OpDetectOS True, Called OpGetPublicIP True,
        Called OpGenerateHTTPPassword True, Called OpGenerateSSPassword True,
        Called OpStopService True, Called OpBackupConfig True, Called OpInstallGOST True,
        Called OpValidate True, Called OpGenerateConfig True,
        Called OpSaveWTEConfig False, Warning OpSaveWTEConfig,
        Called OpCreateService True, Called OpDaemonReload True, Called OpEnable True,
        Called OpStart True, Called OpStatus True, Called OpOpenPorts True,
        Called OpSaveCredentials True]"
  by code_simp

text \<open>
  C2, amended. In every run of the install sequence a failed call is either fatal or
  advisory. The fatal calls are the root check, the detection of the operating system,
  the generation of the two passwords, the installation of GOST, the generation of the
  certificate, the validation and the writing of the GOST configuration, and the
  creation, reload, enabling and start of the service: a failure of one is the last
  event of the run, and the run returns the error of that call. Conversely the error
  that a run returns is the error of its last call, which is fatal and failed on this
  host. The advisory calls are the detection of the public IP, the stop of an existing
  service, the backup of an existing configuration, the saving of the tool's own
  configuration, the status query, the firewall and the credentials file: a failure of
  one is followed by a warning and never by itself ends the run. A run that returns no
  error has gone as far as the saving of the credentials.
\<close>

theorem runInstall_fatal_or_advisory:
  "(\<forall>opn. Called opn False \<in> set (events (runInstall env fl)) \<and> opn \<in> fatal_ops \<longrightarrow>
        (\<exists>e. result (runInstall env fl) = Some e \<and> error_op e = opn)
        \<and> last (events (runInstall env fl)) = Called opn False)
   \<and> (\<forall>opn. Called opn False \<in> set (events (runInstall env fl)) \<and> opn \<in> advisory_ops \<longrightarrow>
        Warning opn \<in> set (events (runInstall env fl)))
   \<and> (\<forall>e. result (runInstall env fl) = Some e \<longrightarrow>
        error_op e \<in> fatal_ops
        \<and> last (events (runInstall env fl)) = Called (error_op e) False
        \<and> caused env (cfg (runInstall env fl)) e)
   \<and> (result (runInstall env fl) = None \<longrightarrow>
        Called OpSaveCredentials (\<not> saveCredentials_fails env)
          \<in> set (events (runInstall env fl)))
   \<and> fatal_ops =
       {OpCheckRoot, OpDetectOS, OpGenerateHTTPPassword, OpGenerateSSPassword,
        OpInstallGOST, OpGenerateCert, OpValidate, OpGenerateConfig, OpCreateService,
        OpDaemonReload, OpEnable, OpStart}
   \<and> advisory_ops =
       {OpGetPublicIP, OpStopService, OpBackupConfig, OpSaveWTEConfig, OpStatus,
        OpOpenPorts, OpSaveCredentials}
   \<and> fatal_ops \<inter> advisory_ops = {}
   \<and> fatal_ops \<union> advisory_ops = UNIV"
proof -
  let ?r = "runInstall env fl"
  have c: "consistent env ?r" by (rule runInstall_consistent)
  have p1: "\<forall>opn. Called opn False \<in> set (events ?r) \<and> opn \<in> fatal_ops \<longrightarrow>
        (\<exists>e. result ?r = Some e \<and> error_op e = opn) \<and> last (events ?r) = Called opn False"
    using c ops_disjoint unfolding consistent_def by blast
  have p2: "\<forall>opn. Called opn False \<in> set (events ?r) \<and> opn \<in> advisory_ops \<longrightarrow>
        Warning opn \<in> set (events ?r)"
    using c ops_disjoint unfolding consistent_def by blast
  have p3: "\<forall>e. result ?r = Some e \<longrightarrow>
        error_op e \<in> fatal_ops \<and> last (events ?r) = Called (error_op e) False
        \<and> caused env (cfg ?r) e"
    using c unfolding consistent_def by blast
  have p4: "result ?r = None \<longrightarrow>
        Called OpSaveCredentials (\<not> saveCredentials_fails env) \<in> set (events ?r)"
    using runInstall_completes by blast
  have all: "fatal_ops \<union> advisory_ops = UNIV"
  proof -
    have "opn \<in> fatal_ops \<union> advisory_ops" for opn
      by (cases opn) (simp_all add: fatal_ops_def advisory_ops_def)
    then show ?thesis by blast
  qed
  from p1 p2 p3 p4 all ops_disjoint show ?thesis
    by (simp only: fatal_ops_def[symmetric] advisory_ops_def[symmetric] simp_thms)
qed

theorem runInstall_fatal_or_advisory_witness:
  "Called OpStart False \<in> set (events (runInstall env_start_fails default_flags))
   \<and> OpStart \<in> fatal_ops
   \<and> result (runInstall env_start_fails default_flags) = Some StartFailed
   \<and> last (events (runInstall env_start_fails default_flags)) = Called OpStart False
   \<and> start_fails env_start_fails
   \<and> Called OpSaveWTEConfig False \<in> set (events (runInstall env_advisory_fail default_flags))
   \<and> OpSaveWTEConfig \<in> advisory_ops
   \<and> Warning OpSaveWTEConfig \<in> set (events (runInstall env_advisory_fail default_flags))
   \<and> result (runInstall env_advisory_fail default_flags) = None
   \<and> Called OpSaveCredentials False
        \<in> set (events (runInstall env_advisory_fail default_flags))"
proof -
  have f1: "Called OpStart False \<in> set (events (runInstall env_start_fails default_flags))"
    by code_simp
  have f2: "OpStart \<in> fatal_ops" by (simp add: fatal_ops_def)
  have a1: "Called OpSaveWTEConfig False
              \<in> set (events (runInstall env_advisory_fail default_flags))"
    by code_simp
  have a2: "OpSaveWTEConfig \<in> advisory_ops" by (simp add: advisory_ops_def)
  have a3: "result (runInstall env_advisory_fail default_flags) = None"
    by code_simp
  have a4: "saveCredentials_fails env_advisory_fail = True"
    by (simp add: env_advisory_fail_def)
  note T1 = runInstall_fatal_or_advisory[of env_start_fails default_flags]
  note T2 = runInstall_fatal_or_advisory[of env_advisory_fail default_flags]
  have r0: "(\<exists>e. result (runInstall env_start_fails default_flags) = Some e
                \<and> error_op e = OpStart)
      \<and> last (events (runInstall env_start_fails default_flags)) = Called OpStart False"
    by (rule T1[THEN conjunct1, THEN spec[of _ OpStart], THEN mp, OF conjI[OF f1 f2]])
  then obtain e where e: "result (runInstall env_start_fails default_flags) = Some e"
    and eo: "error_op e = OpStart"
    by blast
  from eo have "e = StartFailed" by (cases e) simp_all
  with e have r1: "result (runInstall env_start_fails default_flags) = Some StartFailed"
    by simp
  from r0 have r1': "last (events (runInstall env_start_fails default_flags))
                       = Called OpStart False"
    by (rule conjunct2)
  have "caused env_start_fails (cfg (runInstall env_start_fails default_flags)) StartFailed"
    by (rule T1[THEN conjunct2, THEN conjunct2, THEN conjunct1, THEN spec[of _ StartFailed],
                THEN mp, OF r1, THEN conjunct2, THEN conjunct2])
  then have r1'': "start_fails env_start_fails" by simp
  have r2:
    "Warning OpSaveWTEConfig \<in> set (events (runInstall env_advisory_fail default_flags))"
    by (rule T2[THEN conjunct2, THEN conjunct1, THEN spec[of _ OpSaveWTEConfig], THEN mp,
                OF conjI[OF a1 a2]])
  have "Called OpSaveCredentials (\<not> saveCredentials_fails env_advisory_fail)
        \<in> set (events (runInstall env_advisory_fail default_flags))"
    by (rule T2[THEN conjunct2, THEN conjunct2, THEN conjunct2, THEN conjunct1, THEN mp,
                OF a3])
  then have r3: "Called OpSaveCredentials False
        \<in> set (events (runInstall env_advisory_fail default_flags))"
    by (simp only: a4 simp_thms)
  from f1 f2 r1 r1' r1'' a1 a2 r2 a3 r3 show ?thesis
    by (intro conjI) (simp_all only: simp_thms)
qed

subsection \<open>The binary swap\<close>

lemma copyFile_frame:
  "p \<noteq> dst \<Longrightarrow> snd (copyFile fault cp fs src dst) p = fs p"
  by (auto simp: copyFile_def Let_def split: copy_fault.splits)

lemma copyFile_ok:
  "fst (copyFile fault cp fs src dst) \<Longrightarrow> \<exists>f. snd (copyFile fault cp fs src dst) dst = Some f"
  by (auto simp: copyFile_def Let_def split: copy_fault.splits if_splits)

text \<open>The swap, branch by branch.\<close>

lemma Update_swap_steps_backup_fails:
  "backup_refused os \<or> fs execPath = None \<Longrightarrow>
     Update_swap_steps os fs binaryPath execPath = (Some BackupFailed, fs)"
  by (auto simp: Update_swap_steps_def os_Rename_def Let_def)

lemma backup_rename:
  "\<not> backup_refused os \<Longrightarrow> fs execPath \<noteq> None \<Longrightarrow>
     os_Rename (backup_refused os) fs execPath (execPath @ ''.backup'')
       = (True, (fs(execPath := None))(execPath @ ''.backup'' := fs execPath))"
  by (simp add: os_Rename_def)

lemma Update_swap_steps_copy_fails:
  assumes "\<not> backup_refused os" "fs execPath \<noteq> None"
    and "copyFile (copy_fault os) (createPerm os)
           ((fs(execPath := None))(execPath @ ''.backup'' := fs execPath))
           binaryPath execPath = (False, fs2)"
  shows "Update_swap_steps os fs binaryPath execPath =
           (Some InstallFailed,
            snd (os_Rename (restore_after_copy_refused os) fs2
                   (execPath @ ''.backup'') execPath))"
  by (simp add: Update_swap_steps_def Let_def backup_rename[of os fs execPath, OF assms(1,2)] assms(3) split_def)

lemma Update_swap_steps_chmod_fails:
  assumes "\<not> backup_refused os" "fs execPath \<noteq> None"
    and "copyFile (copy_fault os) (createPerm os)
           ((fs(execPath := None))(execPath @ ''.backup'' := fs execPath))
           binaryPath execPath = (True, fs2)"
    and "fs2 execPath = Some f" "chmod_refused os"
  shows "Update_swap_steps os fs binaryPath execPath =
           (Some PermissionsFailed,
            snd (os_Rename (restore_after_chmod_refused os)
                   (snd (os_Remove (remove_new_refused os) fs2 execPath))
                   (execPath @ ''.backup'') execPath))"
proof -
  have ch: "os_Chmod (chmod_refused os) fs2 execPath 493 = (False, fs2)"
    using assms(4,5) by (simp add: os_Chmod_def)
  show ?thesis
    by (simp add: Update_swap_steps_def Let_def backup_rename[of os fs execPath, OF assms(1,2)] assms(3) ch split_def)
qed

lemma Update_swap_steps_succeeds:
  assumes "\<not> backup_refused os" "fs execPath \<noteq> None"
    and "copyFile (copy_fault os) (createPerm os)
           ((fs(execPath := None))(execPath @ ''.backup'' := fs execPath))
           binaryPath execPath = (True, fs2)"
    and "fs2 execPath = Some f" "\<not> chmod_refused os"
  shows "Update_swap_steps os fs binaryPath execPath =
           (None,
            snd (os_Remove (remove_backup_refused os) (fs2(execPath \<mapsto> f\<lparr>perm := 493\<rparr>))
                   (execPath @ ''.backup'')))"
proof -
  have ch: "os_Chmod (chmod_refused os) fs2 execPath 493
              = (True, fs2(execPath \<mapsto> f\<lparr>perm := 493\<rparr>))"
    using assms(4,5) by (simp add: os_Chmod_def)
  show ?thesis
    by (simp add: Update_swap_steps_def Let_def backup_rename[of os fs execPath, OF assms(1,2)] assms(3) ch split_def)
qed

lemma restore_rename:
  assumes "fs2 (execPath @ ''.backup'') = Some orig"
  shows "snd (os_Rename False fs2 (execPath @ ''.backup'') execPath) execPath = Some orig
         \<and> snd (os_Rename False fs2 (execPath @ ''.backup'') execPath) (execPath @ ''.backup'')
             = None"
  using assms by (simp add: os_Rename_def)

lemma os_Rename_frame:
  "p \<noteq> a \<Longrightarrow> p \<noteq> b \<Longrightarrow> snd (os_Rename r fs a b) p = fs p"
  by (simp add: os_Rename_def)

lemma os_Remove_frame:
  "p \<noteq> a \<Longrightarrow> snd (os_Remove r fs a) p = fs p"
  by (simp add: os_Remove_def)


lemma copyFile_content:
  "fst (copyFile fault cp fs src dst) \<Longrightarrow> src \<noteq> dst \<Longrightarrow>
     \<exists>f b. snd (copyFile fault cp fs src dst) dst = Some f \<and> fs src = Some b
           \<and> content f = content b"
  by (auto simp: copyFile_def Let_def split: copy_fault.splits if_splits option.splits)

lemma copyFile_needs_source:
  "fst (copyFile fault cp fs src dst) \<Longrightarrow> fs src \<noteq> None"
  by (auto simp: copyFile_def Let_def split: copy_fault.splits if_splits)

text \<open>The statements of the swap before the deferred removal, all branches at once.\<close>

lemma Update_swap_steps_branches:
  "(backup_refused os \<or> fs execPath = None \<longrightarrow>
      Update_swap_steps os fs binaryPath execPath = (Some BackupFailed, fs))
   \<and> (\<not> backup_refused os \<and> fs execPath \<noteq> None \<longrightarrow>
       (let backupPath = execPath @ ''.backup'';
            fs1 = (fs(execPath := None))(backupPath := fs execPath);
            copied = fst (copyFile (copy_fault os) (createPerm os) fs1 binaryPath execPath);
            err = fst (Update_swap_steps os fs binaryPath execPath);
            fs' = snd (Update_swap_steps os fs binaryPath execPath)
        in (\<not> copied \<longrightarrow>
              err = Some InstallFailed
              \<and> (\<not> restore_after_copy_refused os \<longrightarrow>
                    fs' execPath = fs execPath \<and> fs' backupPath = None))
         \<and> (copied \<and> chmod_refused os \<longrightarrow>
              err = Some PermissionsFailed
              \<and> (\<not> restore_after_chmod_refused os \<longrightarrow>
                    fs' execPath = fs execPath \<and> fs' backupPath = None))
         \<and> (copied \<and> \<not> chmod_refused os \<longrightarrow>
              err = None
              \<and> (\<exists>f. fs' execPath = Some f \<and> perm f = 493)
              \<and> (\<not> remove_backup_refused os \<longrightarrow> fs' backupPath = None))))
   \<and> (\<forall>p. p \<noteq> execPath \<and> p \<noteq> execPath @ ''.backup'' \<longrightarrow>
         snd (Update_swap_steps os fs binaryPath execPath) p = fs p)"
proof -
  let ?B = "execPath @ ''.backup''"
  let ?fs1 = "(fs(execPath := None))(?B := fs execPath)"
  let ?c = "copyFile (copy_fault os) (createPerm os) ?fs1 binaryPath execPath"
  let ?U = "Update_swap_steps os fs binaryPath execPath"
  have B: "?B \<noteq> execPath" by simp
  have first: "backup_refused os \<or> fs execPath = None \<longrightarrow> ?U = (Some BackupFailed, fs)"
    using Update_swap_steps_backup_fails[of os fs execPath binaryPath] by blast
  obtain ok fs2 where c: "?c = (ok, fs2)" by (cases ?c)
  have fs2_frame: "p \<noteq> execPath \<Longrightarrow> fs2 p = ?fs1 p" for p
    using copyFile_frame[of p execPath "copy_fault os" "createPerm os" ?fs1 binaryPath] c
    by simp
  have second: "\<not> backup_refused os \<and> fs execPath \<noteq> None \<longrightarrow>
         (\<not> fst ?c \<longrightarrow>
              fst ?U = Some InstallFailed
              \<and> (\<not> restore_after_copy_refused os \<longrightarrow>
                    snd ?U execPath = fs execPath \<and> snd ?U ?B = None))
         \<and> (fst ?c \<and> chmod_refused os \<longrightarrow>
              fst ?U = Some PermissionsFailed
              \<and> (\<not> restore_after_chmod_refused os \<longrightarrow>
                    snd ?U execPath = fs execPath \<and> snd ?U ?B = None))
         \<and> (fst ?c \<and> \<not> chmod_refused os \<longrightarrow>
              fst ?U = None
              \<and> (\<exists>f. snd ?U execPath = Some f \<and> perm f = 493)
              \<and> (\<not> remove_backup_refused os \<longrightarrow> snd ?U ?B = None))"
  proof (intro impI, elim conjE)
    assume nb: "\<not> backup_refused os" and ex: "fs execPath \<noteq> None"
    then obtain orig where orig: "fs execPath = Some orig" by blast
    have fs2B: "fs2 ?B = Some orig"
      using fs2_frame[OF B] orig by simp
    have a: "\<not> fst ?c \<longrightarrow>
              fst ?U = Some InstallFailed
              \<and> (\<not> restore_after_copy_refused os \<longrightarrow>
                    snd ?U execPath = fs execPath \<and> snd ?U ?B = None)"
    proof
      assume "\<not> fst ?c"
      with c have c': "?c = (False, fs2)" by simp
      note U = Update_swap_steps_copy_fails[of os fs execPath binaryPath fs2, OF nb ex c']
      show "fst ?U = Some InstallFailed
              \<and> (\<not> restore_after_copy_refused os \<longrightarrow>
                    snd ?U execPath = fs execPath \<and> snd ?U ?B = None)"
        using restore_rename[of fs2 execPath orig, OF fs2B] orig by (simp add: U)
    qed
    have b: "fst ?c \<and> chmod_refused os \<longrightarrow>
              fst ?U = Some PermissionsFailed
              \<and> (\<not> restore_after_chmod_refused os \<longrightarrow>
                    snd ?U execPath = fs execPath \<and> snd ?U ?B = None)"
    proof (intro impI, elim conjE)
      assume ok: "fst ?c" and ch: "chmod_refused os"
      with c have c': "?c = (True, fs2)" by simp
      obtain f where f: "fs2 execPath = Some f"
        using copyFile_ok[of "copy_fault os" "createPerm os" ?fs1 binaryPath execPath] ok c
        by auto
      note U = Update_swap_steps_chmod_fails[of os fs execPath binaryPath fs2 f, OF nb ex c' f ch]
      let ?fs4 = "snd (os_Remove (remove_new_refused os) fs2 execPath)"
      have fs4B: "?fs4 ?B = Some orig"
        using os_Remove_frame[of ?B execPath "remove_new_refused os" fs2] fs2B by simp
      from restore_rename[of ?fs4 execPath orig, OF fs4B] orig
      show "fst ?U = Some PermissionsFailed
              \<and> (\<not> restore_after_chmod_refused os \<longrightarrow>
                    snd ?U execPath = fs execPath \<and> snd ?U ?B = None)"
        by (simp add: U)
    qed
    have d: "fst ?c \<and> \<not> chmod_refused os \<longrightarrow>
              fst ?U = None
              \<and> (\<exists>f. snd ?U execPath = Some f \<and> perm f = 493)
              \<and> (\<not> remove_backup_refused os \<longrightarrow> snd ?U ?B = None)"
    proof (intro impI, elim conjE)
      assume ok: "fst ?c" and ch: "\<not> chmod_refused os"
      with c have c': "?c = (True, fs2)" by simp
      obtain f where f: "fs2 execPath = Some f"
        using copyFile_ok[of "copy_fault os" "createPerm os" ?fs1 binaryPath execPath] ok c
        by auto
      note U = Update_swap_steps_succeeds[of os fs execPath binaryPath fs2 f, OF nb ex c' f ch]
      let ?fs3 = "fs2(execPath \<mapsto> f\<lparr>perm := 493\<rparr>)"
      have e: "snd (os_Remove (remove_backup_refused os) ?fs3 ?B) execPath
                 = Some (f\<lparr>perm := 493\<rparr>)"
        using os_Remove_frame[of execPath ?B "remove_backup_refused os" ?fs3] by simp
      have r: "\<not> remove_backup_refused os \<longrightarrow>
                 snd (os_Remove (remove_backup_refused os) ?fs3 ?B) ?B = None"
        using fs2B by (simp add: os_Remove_def)
      from e r show "fst ?U = None
              \<and> (\<exists>f. snd ?U execPath = Some f \<and> perm f = 493)
              \<and> (\<not> remove_backup_refused os \<longrightarrow> snd ?U ?B = None)"
        by (simp add: U)
    qed
    from a b d show "(\<not> fst ?c \<longrightarrow>
              fst ?U = Some InstallFailed
              \<and> (\<not> restore_after_copy_refused os \<longrightarrow>
                    snd ?U execPath = fs execPath \<and> snd ?U ?B = None))
         \<and> (fst ?c \<and> chmod_refused os \<longrightarrow>
              fst ?U = Some PermissionsFailed
              \<and> (\<not> restore_after_chmod_refused os \<longrightarrow>
                    snd ?U execPath = fs execPath \<and> snd ?U ?B = None))
         \<and> (fst ?c \<and> \<not> chmod_refused os \<longrightarrow>
              fst ?U = None
              \<and> (\<exists>f. snd ?U execPath = Some f \<and> perm f = 493)
              \<and> (\<not> remove_backup_refused os \<longrightarrow> snd ?U ?B = None))"
      by (intro conjI)
  qed
  have third: "\<forall>p. p \<noteq> execPath \<and> p \<noteq> ?B \<longrightarrow> snd ?U p = fs p"
  proof (intro allI impI, elim conjE)
    fix p assume p: "p \<noteq> execPath" "p \<noteq> ?B"
    have fs2p: "fs2 p = fs p" using fs2_frame[OF p(1)] p by simp
    show "snd ?U p = fs p"
    proof (cases "backup_refused os \<or> fs execPath = None")
      case True
      with first show ?thesis by simp
    next
      case False
      then have nb: "\<not> backup_refused os" and ex: "fs execPath \<noteq> None" by auto
      show ?thesis
      proof (cases ok)
        case False
        with c have c': "?c = (False, fs2)" by simp
        show ?thesis
          using os_Rename_frame[of p ?B execPath "restore_after_copy_refused os" fs2] p fs2p
          by (simp add: Update_swap_steps_copy_fails[of os fs execPath binaryPath fs2, OF nb ex c'])
      next
        case True
        with c have c': "?c = (True, fs2)" by simp
        obtain f where f: "fs2 execPath = Some f"
          using copyFile_ok[of "copy_fault os" "createPerm os" ?fs1 binaryPath execPath] True c
          by auto
        show ?thesis
        proof (cases "chmod_refused os")
          case ch: True
          let ?fs4 = "snd (os_Remove (remove_new_refused os) fs2 execPath)"
          have "?fs4 p = fs p"
            using os_Remove_frame[of p execPath "remove_new_refused os" fs2] p fs2p by simp
          then show ?thesis
            using os_Rename_frame[of p ?B execPath "restore_after_chmod_refused os" ?fs4] p
            by (simp add: Update_swap_steps_chmod_fails[of os fs execPath binaryPath fs2 f,
                            OF nb ex c' f ch])
        next
          case ch: False
          show ?thesis
            using os_Remove_frame[of p ?B "remove_backup_refused os"
                    "fs2(execPath \<mapsto> f\<lparr>perm := 493\<rparr>)"] p fs2p
            by (simp add: Update_swap_steps_succeeds[of os fs execPath binaryPath fs2 f,
                            OF nb ex c' f ch])
        qed
      qed
    qed
  qed
  from first second third show ?thesis
    by (simp only: Let_def)
qed


lemma Update_swap_steps_content:
  assumes nb: "\<not> backup_refused os" and ex: "fs execPath \<noteq> None"
    and ok: "fst (copyFile (copy_fault os) (createPerm os)
                ((fs(execPath := None))(execPath @ ''.backup'' := fs execPath))
                binaryPath execPath)"
    and ch: "\<not> chmod_refused os"
  shows "\<exists>f b. snd (Update_swap_steps os fs binaryPath execPath) execPath = Some f
           \<and> perm f = 493
           \<and> ((fs(execPath := None))(execPath @ ''.backup'' := fs execPath)) binaryPath = Some b
           \<and> content f = content b"
proof -
  let ?B = "execPath @ ''.backup''"
  let ?fs1 = "(fs(execPath := None))(?B := fs execPath)"
  let ?c = "copyFile (copy_fault os) (createPerm os) ?fs1 binaryPath execPath"
  obtain fs2 where c: "?c = (True, fs2)" using ok by (cases ?c) simp
  have "?fs1 execPath = None" by simp
  moreover have "?fs1 binaryPath \<noteq> None"
    using copyFile_needs_source[of "copy_fault os" "createPerm os" ?fs1 binaryPath execPath] ok
    by blast
  ultimately have ne: "binaryPath \<noteq> execPath" by metis
  obtain f b where f: "fs2 execPath = Some f" and b: "?fs1 binaryPath = Some b"
    and cb: "content f = content b"
    using copyFile_content[of "copy_fault os" "createPerm os" ?fs1 binaryPath execPath,
            OF ok ne] c by auto
  note U = Update_swap_steps_succeeds[of os fs execPath binaryPath fs2 f, OF nb ex c f ch]
  have "snd (Update_swap_steps os fs binaryPath execPath) execPath = Some (f\<lparr>perm := 493\<rparr>)"
    using os_Remove_frame[of execPath ?B "remove_backup_refused os"
            "fs2(execPath \<mapsto> f\<lparr>perm := 493\<rparr>)"]
    by (simp add: U)
  with b cb show ?thesis by simp
qed

text \<open>The deferred removal runs after the statements of the swap.\<close>

lemma Update_swap_fst:
  "fst (Update_swap os fs tempDir binaryPath execPath)
     = fst (Update_swap_steps os fs binaryPath execPath)"
  by (simp add: Update_swap_def split_def Let_def)

lemma Update_swap_snd:
  "snd (Update_swap os fs tempDir binaryPath execPath) p
     = (if in_dir tempDir p \<and> \<not> removeAll_kept os p then None
        else snd (Update_swap_steps os fs binaryPath execPath) p)"
  by (simp add: Update_swap_def split_def Let_def os_RemoveAll_def)


text \<open>
  C5, as stated, has the original executable back at its path whenever the copy fails.
  The error of the restoring rename is dropped: when the disk refuses the new file and
  then the rename, \<open>Update\<close> returns its error with nothing at the executable's path
  and the original left under the backup name.
\<close>

theorem Update_swap_not_restored:
  "fst (Update_swap faults_copy_and_restore fs_sample ''/tmp/wte-update-1''
          ''/tmp/wte-update-1/wte'' ''/usr/local/bin/wte'') = Some InstallFailed
   \<and> snd (Update_swap faults_copy_and_restore fs_sample ''/tmp/wte-update-1''
          ''/tmp/wte-update-1/wte'' ''/usr/local/bin/wte'') ''/usr/local/bin/wte'' = None
   \<and> fs_sample ''/usr/local/bin/wte'' = Some \<lparr>content = [1, 2, 3], perm = 493\<rparr>
   \<and> snd (Update_swap faults_copy_and_restore fs_sample ''/tmp/wte-update-1''
          ''/tmp/wte-update-1/wte'' ''/usr/local/bin/wte'') ''/usr/local/bin/wte.backup''
       = Some \<lparr>content = [1, 2, 3], perm = 493\<rparr>"
  by (simp add: Update_swap_def Update_swap_steps_def os_Rename_def copyFile_def
        os_RemoveAll_def in_dir_def HasPrefix_def faults_copy_and_restore_def
        no_faults_def fs_sample_def)

text \<open>
  C5, amended. The executable and its backup path lie outside the temporary
  directory of the update, which \<open>Update\<close> removes at every return. \<open>Update\<close> first
  renames the running executable to the sibling path with the suffix \<open>.backup\<close>;
  when that fails it returns an error and leaves both paths as they were. When the copy
  of the new binary fails, or the change of its mode fails, it returns an error and
  tries to rename the backup back: when that rename succeeds, the original executable
  is at its path again and the backup path is empty. When copy and change of mode
  succeed it returns no error, the executable's path holds a file of mode \<open>0755\<close>
  with the content of the downloaded binary, and it tries to delete the backup: when
  that succeeds, the backup path is empty. Every other path is removed when it lies in
  the temporary directory (and the operating system does not refuse), and is unchanged
  otherwise.
\<close>

theorem Update_swap_backup_restore:
  assumes "\<not> in_dir tempDir execPath" and "\<not> in_dir tempDir (execPath @ ''.backup'')"
  shows
  "(let backupPath = execPath @ ''.backup'';
        fs1 = (fs(execPath := None))(backupPath := fs execPath);
        copied = fst (copyFile (copy_fault os) (createPerm os) fs1 binaryPath execPath);
        err = fst (Update_swap os fs tempDir binaryPath execPath);
        fs' = snd (Update_swap os fs tempDir binaryPath execPath)
    in (backup_refused os \<or> fs execPath = None \<longrightarrow>
          err = Some BackupFailed
          \<and> fs' execPath = fs execPath \<and> fs' backupPath = fs backupPath)
     \<and> (\<not> backup_refused os \<and> fs execPath \<noteq> None \<longrightarrow>
          (\<not> copied \<longrightarrow>
              err = Some InstallFailed
              \<and> (\<not> restore_after_copy_refused os \<longrightarrow>
                    fs' execPath = fs execPath \<and> fs' backupPath = None))
        \<and> (copied \<and> chmod_refused os \<longrightarrow>
              err = Some PermissionsFailed
              \<and> (\<not> restore_after_chmod_refused os \<longrightarrow>
                    fs' execPath = fs execPath \<and> fs' backupPath = None))
        \<and> (copied \<and> \<not> chmod_refused os \<longrightarrow>
              err = None
              \<and> (\<exists>f b. fs' execPath = Some f \<and> perm f = 493
                       \<and> fs1 binaryPath = Some b \<and> content f = content b)
              \<and> (\<not> remove_backup_refused os \<longrightarrow> fs' backupPath = None)))
     \<and> (\<forall>p. p \<noteq> execPath \<and> p \<noteq> backupPath \<longrightarrow>
           fs' p = (if in_dir tempDir p \<and> \<not> removeAll_kept os p then None else fs p)))"
proof -
  let ?B = "execPath @ ''.backup''"
  let ?fs1 = "(fs(execPath := None))(?B := fs execPath)"
  let ?c = "copyFile (copy_fault os) (createPerm os) ?fs1 binaryPath execPath"
  let ?S = "Update_swap_steps os fs binaryPath execPath"
  let ?U = "Update_swap os fs tempDir binaryPath execPath"
  note S = Update_swap_steps_branches[of os fs execPath binaryPath, unfolded Let_def]
  have e: "fst ?U = fst ?S" by (rule Update_swap_fst)
  have x: "snd ?U execPath = snd ?S execPath"
    using assms(1) by (simp add: Update_swap_snd)
  have y: "snd ?U ?B = snd ?S ?B"
    using assms(2) by (simp add: Update_swap_snd)
  have first: "backup_refused os \<or> fs execPath = None \<longrightarrow>
          fst ?U = Some BackupFailed
          \<and> snd ?U execPath = fs execPath \<and> snd ?U ?B = fs ?B"
    using S[THEN conjunct1] by (simp add: e x y)
  have second: "\<not> backup_refused os \<and> fs execPath \<noteq> None \<longrightarrow>
          (\<not> fst ?c \<longrightarrow>
              fst ?U = Some InstallFailed
              \<and> (\<not> restore_after_copy_refused os \<longrightarrow>
                    snd ?U execPath = fs execPath \<and> snd ?U ?B = None))
        \<and> (fst ?c \<and> chmod_refused os \<longrightarrow>
              fst ?U = Some PermissionsFailed
              \<and> (\<not> restore_after_chmod_refused os \<longrightarrow>
                    snd ?U execPath = fs execPath \<and> snd ?U ?B = None))
        \<and> (fst ?c \<and> \<not> chmod_refused os \<longrightarrow>
              fst ?U = None
              \<and> (\<exists>f b. snd ?U execPath = Some f \<and> perm f = 493
                       \<and> ?fs1 binaryPath = Some b \<and> content f = content b)
              \<and> (\<not> remove_backup_refused os \<longrightarrow> snd ?U ?B = None))"
  proof (intro impI, elim conjE)
    assume nb: "\<not> backup_refused os" and ex: "fs execPath \<noteq> None"
    note T = S[THEN conjunct2, THEN conjunct1, THEN mp, OF conjI, OF nb ex]
    have a: "\<not> fst ?c \<longrightarrow>
              fst ?U = Some InstallFailed
              \<and> (\<not> restore_after_copy_refused os \<longrightarrow>
                    snd ?U execPath = fs execPath \<and> snd ?U ?B = None)"
      unfolding e x y by (rule T[THEN conjunct1])
    have b: "fst ?c \<and> chmod_refused os \<longrightarrow>
              fst ?U = Some PermissionsFailed
              \<and> (\<not> restore_after_chmod_refused os \<longrightarrow>
                    snd ?U execPath = fs execPath \<and> snd ?U ?B = None)"
      unfolding e x y by (rule T[THEN conjunct2, THEN conjunct1])
    have d: "fst ?c \<and> \<not> chmod_refused os \<longrightarrow>
              fst ?U = None
              \<and> (\<exists>f b. snd ?U execPath = Some f \<and> perm f = 493
                       \<and> ?fs1 binaryPath = Some b \<and> content f = content b)
              \<and> (\<not> remove_backup_refused os \<longrightarrow> snd ?U ?B = None)"
    proof (intro impI, elim conjE)
      assume ok: "fst ?c" and ch: "\<not> chmod_refused os"
      note D = T[THEN conjunct2, THEN conjunct2, THEN mp, OF conjI, OF ok ch]
      from D have d1: "fst ?S = None" by (rule conjunct1)
      have d3: "\<not> remove_backup_refused os \<longrightarrow> snd ?S ?B = None"
        by (rule D[THEN conjunct2, THEN conjunct2])
      note d2 = Update_swap_steps_content[of os fs execPath binaryPath, OF nb ex ok ch]
      from d1 d2 d3 show "fst ?U = None
              \<and> (\<exists>f b. snd ?U execPath = Some f \<and> perm f = 493
                       \<and> ?fs1 binaryPath = Some b \<and> content f = content b)
              \<and> (\<not> remove_backup_refused os \<longrightarrow> snd ?U ?B = None)"
        unfolding e x y by (intro conjI)
    qed
    from a b d show "(\<not> fst ?c \<longrightarrow>
              fst ?U = Some InstallFailed
              \<and> (\<not> restore_after_copy_refused os \<longrightarrow>
                    snd ?U execPath = fs execPath \<and> snd ?U ?B = None))
        \<and> (fst ?c \<and> chmod_refused os \<longrightarrow>
              fst ?U = Some PermissionsFailed
              \<and> (\<not> restore_after_chmod_refused os \<longrightarrow>
                    snd ?U execPath = fs execPath \<and> snd ?U ?B = None))
        \<and> (fst ?c \<and> \<not> chmod_refused os \<longrightarrow>
              fst ?U = None
              \<and> (\<exists>f b. snd ?U execPath = Some f \<and> perm f = 493
                       \<and> ?fs1 binaryPath = Some b \<and> content f = content b)
              \<and> (\<not> remove_backup_refused os \<longrightarrow> snd ?U ?B = None))"
      by (intro conjI)
  qed
  have third: "\<forall>p. p \<noteq> execPath \<and> p \<noteq> ?B \<longrightarrow>
           snd ?U p = (if in_dir tempDir p \<and> \<not> removeAll_kept os p then None else fs p)"
  proof (intro allI impI)
    fix p assume p: "p \<noteq> execPath \<and> p \<noteq> ?B"
    have "snd ?S p = fs p"
      using S[THEN conjunct2, THEN conjunct2, THEN spec, of p] p by blast
    then show "snd ?U p = (if in_dir tempDir p \<and> \<not> removeAll_kept os p then None else fs p)"
      by (simp add: Update_swap_snd)
  qed
  from first second third show ?thesis
    by (simp only: Let_def)
qed

theorem Update_swap_backup_restore_witness:
  "fst (Update_swap faults_copy fs_sample ''/tmp/wte-update-1'' ''/tmp/wte-update-1/wte''
          ''/usr/local/bin/wte'') = Some InstallFailed
   \<and> snd (Update_swap faults_copy fs_sample ''/tmp/wte-update-1'' ''/tmp/wte-update-1/wte''
          ''/usr/local/bin/wte'') ''/usr/local/bin/wte''
        = Some \<lparr>content = [1, 2, 3], perm = 493\<rparr>
   \<and> snd (Update_swap faults_copy fs_sample ''/tmp/wte-update-1'' ''/tmp/wte-update-1/wte''
          ''/usr/local/bin/wte'') ''/usr/local/bin/wte.backup'' = None
   \<and> fst (Update_swap faults_chmod fs_sample ''/tmp/wte-update-1'' ''/tmp/wte-update-1/wte''
          ''/usr/local/bin/wte'') = Some PermissionsFailed
   \<and> snd (Update_swap faults_chmod fs_sample ''/tmp/wte-update-1'' ''/tmp/wte-update-1/wte''
          ''/usr/local/bin/wte'') ''/usr/local/bin/wte''
        = Some \<lparr>content = [1, 2, 3], perm = 493\<rparr>
   \<and> fst (Update_swap no_faults fs_sample ''/tmp/wte-update-1'' ''/tmp/wte-update-1/wte''
          ''/usr/local/bin/wte'') = None
   \<and> snd (Update_swap no_faults fs_sample ''/tmp/wte-update-1'' ''/tmp/wte-update-1/wte''
          ''/usr/local/bin/wte'') ''/usr/local/bin/wte''
        = Some \<lparr>content = [4, 5, 6, 7], perm = 493\<rparr>
   \<and> snd (Update_swap no_faults fs_sample ''/tmp/wte-update-1'' ''/tmp/wte-update-1/wte''
          ''/usr/local/bin/wte'') ''/usr/local/bin/wte.backup'' = None
   \<and> snd (Update_swap no_faults fs_sample ''/tmp/wte-update-1'' ''/tmp/wte-update-1/wte''
          ''/usr/local/bin/wte'') ''/tmp/wte-update-1/wte'' = None"
proof -
  let ?tmp = "''/tmp/wte-update-1''"
  let ?bin = "''/tmp/wte-update-1/wte''" and ?exe = "''/usr/local/bin/wte''"
  let ?fs1 = "(fs_sample(?exe := None))(?exe @ ''.backup'' := fs_sample ?exe)"
  have o1: "\<not> in_dir ?tmp ?exe" by (simp add: in_dir_def HasPrefix_def)
  have o2: "\<not> in_dir ?tmp (?exe @ ''.backup'')" by (simp add: in_dir_def HasPrefix_def)
  have i3: "in_dir ?tmp ?bin" by (simp add: in_dir_def HasPrefix_def)
  have ex: "fs_sample ?exe = Some \<lparr>content = [1, 2, 3], perm = 493\<rparr>"
    by (simp add: fs_sample_def)
  have bin: "?fs1 ?bin = Some \<lparr>content = [4, 5, 6, 7], perm = 420\<rparr>"
    by (simp add: fs_sample_def)
  have c1: "\<not> fst (copyFile (copy_fault faults_copy) (createPerm faults_copy) ?fs1 ?bin ?exe)"
    by (simp add: copyFile_def faults_copy_def no_faults_def fs_sample_def)
  have c2: "fst (copyFile (copy_fault faults_chmod) (createPerm faults_chmod) ?fs1 ?bin ?exe)"
    by (simp add: copyFile_def faults_chmod_def no_faults_def fs_sample_def Let_def)
  have c3: "fst (copyFile (copy_fault no_faults) (createPerm no_faults) ?fs1 ?bin ?exe)"
    by (simp add: copyFile_def no_faults_def fs_sample_def Let_def)
  have w1: "fst (Update_swap faults_copy fs_sample ?tmp ?bin ?exe) = Some InstallFailed
      \<and> snd (Update_swap faults_copy fs_sample ?tmp ?bin ?exe) ?exe = fs_sample ?exe
      \<and> snd (Update_swap faults_copy fs_sample ?tmp ?bin ?exe) (?exe @ ''.backup'') = None"
    using Update_swap_backup_restore[of ?tmp ?exe fs_sample faults_copy ?bin, OF o1 o2] c1 ex
    by (simp add: Let_def faults_copy_def no_faults_def)
  have w2: "fst (Update_swap faults_chmod fs_sample ?tmp ?bin ?exe) = Some PermissionsFailed
      \<and> snd (Update_swap faults_chmod fs_sample ?tmp ?bin ?exe) ?exe = fs_sample ?exe"
    using Update_swap_backup_restore[of ?tmp ?exe fs_sample faults_chmod ?bin, OF o1 o2] c2 ex
    by (simp add: Let_def faults_chmod_def no_faults_def)
  have w3: "fst (Update_swap no_faults fs_sample ?tmp ?bin ?exe) = None
      \<and> (\<exists>f b. snd (Update_swap no_faults fs_sample ?tmp ?bin ?exe) ?exe = Some f
               \<and> perm f = 493 \<and> ?fs1 ?bin = Some b \<and> content f = content b)
      \<and> snd (Update_swap no_faults fs_sample ?tmp ?bin ?exe) (?exe @ ''.backup'') = None
      \<and> snd (Update_swap no_faults fs_sample ?tmp ?bin ?exe) ?bin = None"
    using Update_swap_backup_restore[of ?tmp ?exe fs_sample no_faults ?bin, OF o1 o2] c3 ex i3
    by (simp add: Let_def no_faults_def)
  from w3 bin have w4: "snd (Update_swap no_faults fs_sample ?tmp ?bin ?exe) ?exe
        = Some \<lparr>content = [4, 5, 6, 7], perm = 493\<rparr>"
    by auto
  from w1 w2 w3 w4 ex show ?thesis by simp
qed

subsection \<open>Configuration loader\<close>

lemma Marshal_lookup:
  "map_of (yaml_Marshal c) ''gost.version'' = Some (YString (Version (GOST c)))"
  "map_of (yaml_Marshal c) ''gost.binary_path'' = Some (YString (BinaryPath (GOST c)))"
  "map_of (yaml_Marshal c) ''gost.config_dir'' = Some (YString (ConfigDir (GOST c)))"
  "map_of (yaml_Marshal c) ''gost.config_file'' = Some (YString (ConfigFile (GOST c)))"
  "map_of (yaml_Marshal c) ''http.enabled'' = Some (YBool (http_Enabled (HTTP c)))"
  "map_of (yaml_Marshal c) ''http.port'' = Some (YInt (http_Port (HTTP c)))"
  "map_of (yaml_Marshal c) ''http.auth.enabled'' = Some (YBool (auth_Enabled (http_Auth (HTTP c))))"
  "map_of (yaml_Marshal c) ''http.auth.username'' = Some (YString (Username (http_Auth (HTTP c))))"
  "map_of (yaml_Marshal c) ''http.auth.password'' = Some (YString (auth_Password (http_Auth (HTTP c))))"
  "map_of (yaml_Marshal c) ''https.enabled'' = Some (YBool (https_Enabled (HTTPS c)))"
  "map_of (yaml_Marshal c) ''https.port'' = Some (YInt (https_Port (HTTPS c)))"
  "map_of (yaml_Marshal c) ''https.cert_path'' = Some (YString (CertPath (HTTPS c)))"
  "map_of (yaml_Marshal c) ''https.key_path'' = Some (YString (KeyPath (HTTPS c)))"
  "map_of (yaml_Marshal c) ''https.auth.enabled'' = Some (YBool (auth_Enabled (https_Auth (HTTPS c))))"
  "map_of (yaml_Marshal c) ''https.auth.username'' = Some (YString (Username (https_Auth (HTTPS c))))"
  "map_of (yaml_Marshal c) ''https.auth.password'' = Some (YString (auth_Password (https_Auth (HTTPS c))))"
  "map_of (yaml_Marshal c) ''shadowsocks.enabled'' = Some (YBool (ss_Enabled (Shadowsocks c)))"
  "map_of (yaml_Marshal c) ''shadowsocks.port'' = Some (YInt (ss_Port (Shadowsocks c)))"
  "map_of (yaml_Marshal c) ''shadowsocks.method'' = Some (YString (Method (Shadowsocks c)))"
  "map_of (yaml_Marshal c) ''shadowsocks.password'' = Some (YString (ss_Password (Shadowsocks c)))"
  "map_of (yaml_Marshal c) ''firewall.auto_configure'' = Some (YBool (AutoConfigure (Firewall c)))"
  "map_of (yaml_Marshal c) ''logging.level'' = Some (YString (Level (Logging c)))"
  by (simp_all add: yaml_Marshal_def)

lemma viper_Get_file:
  assumes "getEnv io k = None"
    and "map_of (v_override v) k = None"
    and "\<not> isPathShadowedInDeepMap (v_override v) k"
    and "\<not> isPathShadowedInAutoEnv io k"
    and "map_of (v_config v) k = Some x"
  shows "viper_Get io v k = Some x"
  using assms by (simp add: viper_Get_def)

text \<open>No configuration key is the parent of another.\<close>

lemma parents_not_keys:
  "\<forall>k \<in> set config_keys. \<forall>p \<in> set (parentKeys k). p \<notin> set config_keys"
  by code_simp

lemma Unmarshal_Marshal:
  assumes "\<forall>k \<in> set config_keys. get k = map_of (yaml_Marshal c) k"
  shows "Unmarshal io get = c" and "Unmarshal_ok io get"
proof -
  have keys: "set config_keys =
     {''gost.version'', ''gost.binary_path'', ''gost.config_dir'', ''gost.config_file'',
      ''http.enabled'', ''http.port'', ''http.auth.enabled'', ''http.auth.username'',
      ''http.auth.password'', ''https.enabled'', ''https.port'', ''https.cert_path'',
      ''https.key_path'', ''https.auth.enabled'', ''https.auth.username'',
      ''https.auth.password'', ''shadowsocks.enabled'', ''shadowsocks.port'',
      ''shadowsocks.method'', ''shadowsocks.password'', ''firewall.auto_configure'',
      ''logging.level''}"
    by (simp add: config_keys_def setDefaults_def)
  note g = assms[unfolded keys, simplified, unfolded Marshal_lookup]
  show "Unmarshal io get = c"
    by (simp add: Unmarshal_def g decodeString_def decodeBool_def decodeInt_def)
  show "Unmarshal_ok io get"
    by (simp add: Unmarshal_ok_def g decodeString_def decodeBool_def decodeInt_def)
qed


lemma viper_Get_saved:
  assumes env: "\<forall>k \<in> set config_keys. \<forall>p \<in> set (k # parentKeys k). getEnv io p = None"
    and ovr: "\<forall>k \<in> set config_keys. \<forall>p \<in> set (k # parentKeys k).
                map_of (v_override v) p = None"
    and conf: "v_config v = yaml_Marshal c"
  shows "\<forall>k \<in> set config_keys. viper_Get io v k = map_of (yaml_Marshal c) k"
proof
  fix k assume k: "k \<in> set config_keys"
  have "fst ` set (yaml_Marshal c) = set config_keys"
    by (simp add: yaml_Marshal_def config_keys_def setDefaults_def)
  with k obtain x where x: "map_of (yaml_Marshal c) k = Some x"
    by (metis map_of_eq_None_iff not_Some_eq)
  have e1: "getEnv io k = None" using env k by simp
  have o1: "map_of (v_override v) k = None" using ovr k by simp
  have o2: "\<not> isPathShadowedInDeepMap (v_override v) k"
    using ovr k by (simp add: isPathShadowedInDeepMap_def list_ex_iff)
  have e2: "\<not> isPathShadowedInAutoEnv io k"
    using env k by (simp add: isPathShadowedInAutoEnv_def list_ex_iff)
  show "viper_Get io v k = map_of (yaml_Marshal c) k"
    using viper_Get_file[of io k v x, OF e1 o1 o2 e2] x conf by simp
qed

text \<open>
  A variable named after a parent of a key shadows the key in every layer below: with
  \<open>WTE_HTTP=1\<close> the reload finds nothing for the keys under \<open>http\<close>, and the
  section comes back with its zero values.
\<close>

lemma Load_parent_variable_shadows:
  "fst (Load io_env_parent ''/etc/wte/config.yaml''
          (snd (SaveTo io_env_parent ''/etc/wte/config.yaml'' st_custom))) = None
   \<and> config_cfg (snd (Load io_env_parent ''/etc/wte/config.yaml''
          (snd (SaveTo io_env_parent ''/etc/wte/config.yaml'' st_custom))))
       = Some (cfg_custom
                 \<lparr>HTTP := \<lparr> http_Enabled = False, http_Port = 0,
                            http_Auth = \<lparr> auth_Enabled = False, Username = [],
                                          auth_Password = [] \<rparr> \<rparr>\<rparr>)"
  by code_simp

text \<open>
  C9, as stated, has the reload reproduce every configuration. \<open>Init\<close> switches on
  \<open>AutomaticEnv\<close> with the prefix \<open>WTE\<close>, so a variable of the environment overrides the
  file: with \<open>WTE_LOGGING_LEVEL=debug\<close> the defaults are saved with level \<open>info\<close> and
  come back with level \<open>debug\<close>.
\<close>

theorem Load_environment_overrides:
  "config_cfg st_default = Some DefaultConfig
   \<and> fst (SaveTo io_env_override ''/etc/wte/config.yaml'' st_default) = None
   \<and> fst (Load io_env_override ''/etc/wte/config.yaml''
            (snd (SaveTo io_env_override ''/etc/wte/config.yaml'' st_default))) = None
   \<and> config_cfg (snd (Load io_env_override ''/etc/wte/config.yaml''
            (snd (SaveTo io_env_override ''/etc/wte/config.yaml'' st_default))))
       = Some (DefaultConfig\<lparr>Logging := \<lparr>Level = ''debug''\<rparr>\<rparr>)
   \<and> Level (Logging DefaultConfig) = ''info''"
  by code_simp

text \<open>
  C9, amended. Let a configuration be saved to a file with \<open>SaveTo\<close>, and let \<open>Load\<close>
  read that file as YAML (the name of the file ends in \<open>.yaml\<close> or \<open>.yml\<close>, or the
  configuration type of \<open>viper\<close> is one of the two), in the same process or in a later
  one, whatever its \<open>cfg\<close> held before. When no environment variable \<open>WTE_<KEY>\<close>
  of a configuration key or of a parent of one (such as \<open>WTE_HTTP\<close> or
  \<open>WTE_HTTP_AUTH\<close>) is set to a non-empty value, and no value of such a key has been
  set through \<open>viper.Set\<close> in the loading process, \<open>Load\<close> succeeds and its \<open>cfg\<close>
  is equal to the configuration saved, in every field.
\<close>

theorem SaveTo_Load_roundtrip:
  assumes "config_cfg st = Some c"
    and "fst (SaveTo io path st) = None"
    and "path \<noteq> []"
    and "files st' path = files (snd (SaveTo io path st)) path"
    and "getConfigType (the_viper st') path \<in> {''yaml'', ''yml''}"
    and "\<forall>k \<in> set config_keys. \<forall>p \<in> set (k # parentKeys k). getEnv io' p = None"
    and "\<forall>k \<in> set config_keys. \<forall>p \<in> set (k # parentKeys k).
           map_of (v_override (the_viper st')) p = None"
  shows "fst (Load io' path st') = None
         \<and> config_cfg (snd (Load io' path st')) = Some c"
proof -
  have saved: "files (snd (SaveTo io path st)) path = Some (Document (yaml_Marshal c))"
    using assms(1,2) by (auto simp: SaveTo_def Let_def split: if_splits)
  with assms(4) have doc: "files st' path = Some (Document (yaml_Marshal c))" by simp
  let ?v1 = "(the_viper st')\<lparr>v_defaults := setDefaults,
                               v_configType := v_configType (the_viper st')\<rparr>"
  let ?v = "?v1\<lparr>v_config := yaml_Marshal c\<rparr>"
  have ctype: "getConfigType ?v1 path = getConfigType (the_viper st') path"
    by (simp add: getConfigType_def)
  have rd: "readConfig io' ?v1 path (Document (yaml_Marshal c)) = Some (yaml_Marshal c)"
    using assms(5) unfolding readConfig_def ctype by simp
  have get: "\<forall>k \<in> set config_keys. viper_Get io' ?v k = map_of (yaml_Marshal c) k"
    using viper_Get_saved[of io' ?v c] assms(6,7) by simp
  have load: "Load io' path st' =
      (if Unmarshal_ok io' (viper_Get io' ?v)
       then (None, st'\<lparr>ConfigPath := path, the_viper := ?v,
                        config_cfg := Some (Unmarshal io' (viper_Get io' ?v))\<rparr>)
       else (Some UnmarshalFailed,
             st'\<lparr>ConfigPath := path, the_viper := ?v,
                 config_cfg := Some (Unmarshal io' (viper_Get io' ?v))\<rparr>))"
    using assms(3) doc rd by (simp add: Load_def Init_def Let_def)
  from Unmarshal_Marshal[OF get, of io'] load show ?thesis by simp
qed

theorem SaveTo_Load_roundtrip_witness:
  "config_cfg st_custom = Some cfg_custom
   \<and> cfg_custom \<noteq> DefaultConfig
   \<and> fst (SaveTo io_plain ''/etc/wte/config.yaml'' st_custom) = None
   \<and> config_cfg st_later = None
   \<and> getConfigType (the_viper st_later) ''/etc/wte/config.yaml'' = ''yaml''
   \<and> fst (Load io_plain ''/etc/wte/config.yaml'' st_later) = None
   \<and> config_cfg (snd (Load io_plain ''/etc/wte/config.yaml'' st_later)) = Some cfg_custom
   \<and> fst (Load io_plain ''/etc/wte/config.yaml''
            (snd (SaveTo io_plain ''/etc/wte/config.yaml'' st_custom))) = None
   \<and> config_cfg (snd (Load io_plain ''/etc/wte/config.yaml''
            (snd (SaveTo io_plain ''/etc/wte/config.yaml'' st_custom)))) = Some cfg_custom"
proof -
  let ?path = "''/etc/wte/config.yaml''"
  have h1: "config_cfg st_custom = Some cfg_custom"
    by (simp add: st_custom_def)
  have ne: "cfg_custom \<noteq> DefaultConfig"
    by (simp add: cfg_custom_def DefaultConfig_def)
  have h2: "fst (SaveTo io_plain ?path st_custom) = None"
    by (simp add: SaveTo_def io_plain_def Let_def)
  have h3: "?path \<noteq> []" by simp
  have h4: "files st_later ?path = files (snd (SaveTo io_plain ?path st_custom)) ?path"
    by (simp add: st_later_def)
  have h4': "files (snd (SaveTo io_plain ?path st_custom)) ?path
               = files (snd (SaveTo io_plain ?path st_custom)) ?path"
    by (rule refl)
  have t: "getConfigType (the_viper st_later) ?path = ''yaml''"
    by (simp add: getConfigType_def Ext_def st_later_def)
  have t': "getConfigType (the_viper (snd (SaveTo io_plain ?path st_custom))) ?path = ''yaml''"
    by (simp add: getConfigType_def Ext_def SaveTo_def io_plain_def Let_def st_custom_def
          st_default_def)
  have h5: "getConfigType (the_viper st_later) ?path \<in> {''yaml'', ''yml''}"
    unfolding t by simp
  have h5': "getConfigType (the_viper (snd (SaveTo io_plain ?path st_custom))) ?path
               \<in> {''yaml'', ''yml''}"
    unfolding t' by simp
  have h6: "\<forall>k \<in> set config_keys. \<forall>p \<in> set (k # parentKeys k). getEnv io_plain p = None"
    by (simp add: getEnv_def io_plain_def)
  have h7: "\<forall>k \<in> set config_keys. \<forall>p \<in> set (k # parentKeys k).
           map_of (v_override (the_viper st_later)) p = None"
    by (simp add: st_later_def)
  have h7': "\<forall>k \<in> set config_keys. \<forall>p \<in> set (k # parentKeys k).
           map_of (v_override (the_viper (snd (SaveTo io_plain ?path st_custom)))) p = None"
    by (simp add: SaveTo_def io_plain_def Let_def st_custom_def st_default_def)
  have l: "config_cfg st_later = None" by (simp add: st_later_def)
  note w1 = SaveTo_Load_roundtrip[of st_custom cfg_custom io_plain ?path st_later io_plain,
              OF h1 h2 h3 h4 h5 h6 h7]
  note w2 = SaveTo_Load_roundtrip[of st_custom cfg_custom io_plain ?path
              "snd (SaveTo io_plain ?path st_custom)" io_plain, OF h1 h2 h3 h4' h5' h6 h7']
  from h1 ne h2 l t w1 w2 show ?thesis by (simp only: simp_thms)
qed

end
